theory Spec2Isabelle
  imports Complex_Main
begin

section \<open>JavaScript values\<close>

text \<open>
  The adapters of Tidepool (\<^verbatim>\<open>src/apis/fishbase.js\<close>, \<^verbatim>\<open>src/apis/obis.js\<close>, whose
  text follows that of \<^verbatim>\<open>fishbase.js\<close> in the source tree at hand, and
  \<^verbatim>\<open>src/apis/ocean-weather.js\<close>) and the router (\<^verbatim>\<open>src/server.js\<close>) are glue code
  over JSON data, so the embedding starts with the values they handle.

  A number is a double. The code never does arithmetic on numbers: it compares them,
  tests them for truthiness, parses them from text and prints them with \<^verbatim>\<open>toFixed\<close>.
  A finite double is therefore modelled by the rational number it denotes, next to the
  three special values. Two idealisations follow and are kept in mind below: the two
  zeros \<^verbatim>\<open>+0\<close> and \<^verbatim>\<open>-0\<close> are one value \<open>Fin 0\<close> (both are falsy), and a decimal
  literal or a parsed decimal text denotes its exact decimal value, not the nearest double.
\<close>

datatype jsnum = NaN | PosInf | NegInf | Fin rat

datatype jsval =
    JUndefined
  | JNull
  | JBool bool
  | JNum jsnum
  | JStr string
  | JArr "jsval list"
  | JObj "(string \<times> jsval) list"

text \<open>
  An object is an association list from keys to values; a key whose value is
  \<open>JUndefined\<close> is still an own property of the object, as in JavaScript.
  Strings are byte strings: text outside ASCII is written as its UTF-8 bytes.
\<close>

text \<open>An exception, with its \<^verbatim>\<open>message\<close>. \<open>Inl\<close> of a result is a throw (a rejected promise).\<close>

datatype js_error = AxiosError string | TypeError string

fun error_message :: "js_error \<Rightarrow> string" where
  "error_message (AxiosError m) = m"
| "error_message (TypeError m) = m"

text \<open>
  What the program needs from the JavaScript runtime and cannot compute from a rational:
  \<^verbatim>\<open>Number::toString\<close> of a finite number (the shortest digits that read back as the
  same double), and the clock behind \<^verbatim>\<open>new Date().toISOString()\<close>.
\<close>

record js_runtime =
  num_to_string :: "rat \<Rightarrow> string"
  iso_now :: string

subsection \<open>Truthiness, \<^verbatim>\<open>||\<close>, comparison\<close>

fun truthy :: "jsval \<Rightarrow> bool" where
  "truthy JUndefined = False"
| "truthy JNull = False"
| "truthy (JBool b) = b"
| "truthy (JNum n) = (n \<noteq> NaN \<and> n \<noteq> Fin 0)"
| "truthy (JStr s) = (s \<noteq> [])"
| "truthy (JArr xs) = True"
| "truthy (JObj kvs) = True"

definition js_or :: "jsval \<Rightarrow> jsval \<Rightarrow> jsval" where
  "js_or a b = (if truthy a then a else b)"

fun num_lt :: "jsnum \<Rightarrow> jsnum \<Rightarrow> bool" where
  "num_lt NaN y = False"
| "num_lt x NaN = False"
| "num_lt PosInf y = False"
| "num_lt NegInf y = (y \<noteq> NegInf)"
| "num_lt (Fin x) PosInf = True"
| "num_lt (Fin x) NegInf = False"
| "num_lt (Fin x) (Fin y) = (x < y)"

definition num_le :: "jsnum \<Rightarrow> jsnum \<Rightarrow> bool" where
  "num_le x y = (x \<noteq> NaN \<and> y \<noteq> NaN \<and> (x = y \<or> num_lt x y))"

definition num_ge :: "jsnum \<Rightarrow> jsnum \<Rightarrow> bool" where
  "num_ge x y = num_le y x"

subsection \<open>\<^verbatim>\<open>Number.prototype.toFixed\<close>\<close>

definition digit_chars :: string where
  "digit_chars = ''0123456789''"

definition is_digit :: "char \<Rightarrow> bool" where
  "is_digit c = (c \<in> set digit_chars)"

fun digits_of :: "nat \<Rightarrow> string" where
  "digits_of n = (if n < 10 then [digit_chars ! n] else digits_of (n div 10) @ [digit_chars ! (n mod 10)])"

declare digits_of.simps [simp del]

text \<open>
  \<^verbatim>\<open>x.toFixed(d)\<close> for \<open>0 \<le> d \<le> 100\<close>: \<^verbatim>\<open>"NaN"\<close> for NaN; \<^verbatim>\<open>ToString(x)\<close> when
  \<open>|x| \<ge> 10^21\<close> (the infinities included); otherwise the sign, then the integer \<open>n\<close> with
  \<open>n / 10^d\<close> nearest to \<open>|x|\<close> (the larger one on a tie), padded with zeros to more than
  \<open>d\<close> digits, with a point before the last \<open>d\<close> digits.
\<close>

definition fixed_digits :: "nat \<Rightarrow> nat \<Rightarrow> string" where
  "fixed_digits d n =
     (let ds = digits_of n;
          m = replicate (d + 1 - length ds) (CHR ''0'') @ ds;
          k = length m - d
      in if d = 0 then m else take k m @ ''.'' @ drop k m)"

definition to_fixed :: "js_runtime \<Rightarrow> nat \<Rightarrow> jsnum \<Rightarrow> string" where
  "to_fixed rt d x =
     (case x of
        NaN \<Rightarrow> ''NaN''
      | PosInf \<Rightarrow> ''Infinity''
      | NegInf \<Rightarrow> ''-Infinity''
      | Fin q \<Rightarrow>
          if \<bar>q\<bar> \<ge> 10 ^ 21 then num_to_string rt q
          else (if q < 0 then ''-'' else '''')
               @ fixed_digits d (nat \<lfloor>\<bar>q\<bar> * 10 ^ d + 1 / 2\<rfloor>))"

subsection \<open>Reading numbers from text\<close>

text \<open>
  The white space that \<^verbatim>\<open>parseFloat\<close> and \<^verbatim>\<open>Number\<close> skip: tab, line feed, vertical
  tab, form feed, carriage return, space, and in UTF-8 the no-break space, the byte order
  mark, the line and paragraph separators and the other space separators of Unicode.
\<close>

definition white_space :: "string list" where
  "white_space =
    [ [CHR 0x09], [CHR 0x0A], [CHR 0x0B], [CHR 0x0C], [CHR 0x0D], [CHR 0x20],
      [CHR 0xC2, CHR 0xA0], [CHR 0xEF, CHR 0xBB, CHR 0xBF],
      [CHR 0xE2, CHR 0x80, CHR 0xA8], [CHR 0xE2, CHR 0x80, CHR 0xA9],
      [CHR 0xE1, CHR 0x9A, CHR 0x80],
      [CHR 0xE2, CHR 0x80, CHR 0x80], [CHR 0xE2, CHR 0x80, CHR 0x81],
      [CHR 0xE2, CHR 0x80, CHR 0x82], [CHR 0xE2, CHR 0x80, CHR 0x83],
      [CHR 0xE2, CHR 0x80, CHR 0x84], [CHR 0xE2, CHR 0x80, CHR 0x85],
      [CHR 0xE2, CHR 0x80, CHR 0x86], [CHR 0xE2, CHR 0x80, CHR 0x87],
      [CHR 0xE2, CHR 0x80, CHR 0x88], [CHR 0xE2, CHR 0x80, CHR 0x89],
      [CHR 0xE2, CHR 0x80, CHR 0x8A], [CHR 0xE2, CHR 0x80, CHR 0xAF],
      [CHR 0xE2, CHR 0x81, CHR 0x9F], [CHR 0xE3, CHR 0x80, CHR 0x80] ]"

definition starts_with :: "string \<Rightarrow> string \<Rightarrow> bool" where
  "starts_with w s = (take (length w) s = w)"

definition ends_with :: "string \<Rightarrow> string \<Rightarrow> bool" where
  "ends_with w s = (length w \<le> length s \<and> drop (length s - length w) s = w)"

text \<open>The length of the white space character at the head (at the end) of a string, or 0.\<close>

definition ws_head :: "string \<Rightarrow> nat" where
  "ws_head s = (case find (\<lambda>w. starts_with w s) white_space of Some w \<Rightarrow> length w | None \<Rightarrow> 0)"

definition ws_last :: "string \<Rightarrow> nat" where
  "ws_last s = (case find (\<lambda>w. ends_with w s) white_space of Some w \<Rightarrow> length w | None \<Rightarrow> 0)"

lemma ws_head_le: "ws_head s \<le> length s"
proof (cases "find (\<lambda>w. starts_with w s) white_space")
  case None
  then show ?thesis by (simp add: ws_head_def)
next
  case (Some w)
  then have "starts_with w s" by (auto simp: find_Some_iff)
  then have "length (take (length w) s) = length w"
    by (simp only: starts_with_def)
  then have "length w \<le> length s"
    by simp
  with Some show ?thesis by (simp add: ws_head_def)
qed

lemma ws_last_le: "ws_last s \<le> length s"
proof (cases "find (\<lambda>w. ends_with w s) white_space")
  case None
  then show ?thesis by (simp add: ws_last_def)
next
  case (Some w)
  then have "ends_with w s" by (auto simp: find_Some_iff)
  then have "length w \<le> length s"
    by (simp add: ends_with_def)
  with Some show ?thesis by (simp add: ws_last_def)
qed

function trim_start :: "string \<Rightarrow> string" where
  "trim_start s = (if ws_head s = 0 then s else trim_start (drop (ws_head s) s))"
  by pat_completeness auto
termination
proof (relation "measure length")
  fix s :: string
  assume "ws_head s \<noteq> 0"
  then show "(drop (ws_head s) s, s) \<in> measure length"
    using ws_head_le [of s] by simp
qed simp

function trim_end :: "string \<Rightarrow> string" where
  "trim_end s = (if ws_last s = 0 then s else trim_end (take (length s - ws_last s) s))"
  by pat_completeness auto
termination
proof (relation "measure length")
  fix s :: string
  assume "ws_last s \<noteq> 0"
  then show "(take (length s - ws_last s) s, s) \<in> measure length"
    using ws_last_le [of s] by simp
qed simp

declare trim_start.simps [simp del] trim_end.simps [simp del]

definition digit_val :: "char \<Rightarrow> nat" where
  "digit_val c = of_char c - 48"

definition digits_value :: "string \<Rightarrow> nat" where
  "digits_value ds = foldl (\<lambda>a c. 10 * a + digit_val c) 0 ds"

text \<open>An optional sign: the factor it stands for and the rest of the text.\<close>

definition take_sign :: "string \<Rightarrow> int \<times> string" where
  "take_sign s =
     (case s of
        c # r \<Rightarrow> if c = CHR ''-'' then (- 1, r) else if c = CHR ''+'' then (1, r) else (1, s)
      | [] \<Rightarrow> (1, s))"

text \<open>
  An exponent part at the head of a text (\<^verbatim>\<open>e\<close> or \<^verbatim>\<open>E\<close>, an optional sign, digits):
  the exponent and the rest; exponent 0 and the whole text when there is none.
\<close>

definition take_exponent :: "string \<Rightarrow> int \<times> string" where
  "take_exponent s =
     (case s of
        c # r \<Rightarrow>
          if c = CHR ''e'' \<or> c = CHR ''E'' then
            (let (sg, r1) = take_sign r; ds = takeWhile is_digit r1
             in if ds = [] then (0, s) else (sg * int (digits_value ds), dropWhile is_digit r1))
          else (0, s)
      | [] \<Rightarrow> (0, s))"

definition scale10 :: "rat \<Rightarrow> int \<Rightarrow> rat" where
  "scale10 q e = (if e \<ge> 0 then q * 10 ^ nat e else q / 10 ^ nat (- e))"

text \<open>
  The longest prefix of a text that is a \<^verbatim>\<open>StrDecimalLiteral\<close> (sign, then \<^verbatim>\<open>Infinity\<close>
  or digits with an optional fraction and exponent): its value and the rest of the text.
  The value is the exact decimal value.
\<close>

definition parse_decimal :: "string \<Rightarrow> (jsnum \<times> string) option" where
  "parse_decimal s =
     (let (sg, r0) = take_sign s in
      if starts_with ''Infinity'' r0
      then Some (if sg < 0 then NegInf else PosInf, drop 8 r0)
      else
        let ip = takeWhile is_digit r0;
            r1 = dropWhile is_digit r0;
            dot = (r1 \<noteq> [] \<and> hd r1 = CHR ''.'');
            fp = (if dot then takeWhile is_digit (tl r1) else []);
            r2 = (if dot then dropWhile is_digit (tl r1) else r1)
        in if ip = [] \<and> fp = [] then None
           else
             let (e, r3) = take_exponent r2;
                 m = of_nat (digits_value (ip @ fp)) / 10 ^ length fp
             in Some (Fin (of_int sg * scale10 m e), r3))"

definition parseFloat_str :: "string \<Rightarrow> jsnum" where
  "parseFloat_str s = (case parse_decimal (trim_start s) of Some (v, r) \<Rightarrow> v | None \<Rightarrow> NaN)"

text \<open>Literals in another base, for \<^verbatim>\<open>Number\<close>: \<^verbatim>\<open>0x\<close>, \<^verbatim>\<open>0o\<close>, \<^verbatim>\<open>0b\<close> and digits.\<close>

definition radix_digit :: "char \<Rightarrow> nat option" where
  "radix_digit c =
     (let n = of_char c in
      if 48 \<le> n \<and> n \<le> 57 then Some (n - 48)
      else if 97 \<le> n \<and> n \<le> 102 then Some (n - 87)
      else if 65 \<le> n \<and> n \<le> 70 then Some (n - 55)
      else None)"

definition radix_value :: "nat \<Rightarrow> string \<Rightarrow> nat option" where
  "radix_value b ds =
     (if ds \<noteq> [] \<and> list_all (\<lambda>c. case radix_digit c of Some d \<Rightarrow> d < b | None \<Rightarrow> False) ds
      then Some (foldl (\<lambda>a c. b * a + the (radix_digit c)) 0 ds)
      else None)"

definition parse_radix :: "string \<Rightarrow> nat option" where
  "parse_radix s =
     (case s of
        z # p # ds \<Rightarrow>
          if z \<noteq> CHR ''0'' then None
          else if p = CHR ''x'' \<or> p = CHR ''X'' then radix_value 16 ds
          else if p = CHR ''o'' \<or> p = CHR ''O'' then radix_value 8 ds
          else if p = CHR ''b'' \<or> p = CHR ''B'' then radix_value 2 ds
          else None
      | _ \<Rightarrow> None)"

text \<open>\<^verbatim>\<open>StringToNumber\<close>: the whole trimmed text must be a numeric literal; empty text is 0.\<close>

definition to_number_str :: "string \<Rightarrow> jsnum" where
  "to_number_str s =
     (let t = trim_end (trim_start s) in
      if t = [] then Fin 0
      else case parse_radix t of
             Some n \<Rightarrow> Fin (of_nat n)
           | None \<Rightarrow> (case parse_decimal t of
                        Some (v, r) \<Rightarrow> if r = [] then v else NaN
                      | None \<Rightarrow> NaN))"

subsection \<open>Conversions of values\<close>

text \<open>
  \<^verbatim>\<open>parseFloat(v)\<close> reads the text \<^verbatim>\<open>ToString(v)\<close>. For a number that text reads back as
  the number itself. For an array the text is the elements' texts joined by commas, and a
  comma ends every numeric prefix, so the first element decides (the text of \<^verbatim>\<open>null\<close>
  inside an array is empty, and \<^verbatim>\<open>parseFloat(null)\<close> is NaN as well).
\<close>

fun parseFloat :: "jsval \<Rightarrow> jsnum" where
  "parseFloat (JNum n) = n"
| "parseFloat (JStr s) = parseFloat_str s"
| "parseFloat (JArr (x # xs)) = parseFloat x"
| "parseFloat (JArr []) = NaN"
| "parseFloat (JObj kvs) = NaN"
| "parseFloat (JBool b) = NaN"
| "parseFloat JNull = NaN"
| "parseFloat JUndefined = NaN"

text \<open>
  \<^verbatim>\<open>ToNumber(v)\<close>, which the comparison \<^verbatim>\<open>v < c\<close> with a number \<^verbatim>\<open>c\<close> applies to
  \<^verbatim>\<open>v\<close>. An object becomes the text \<^verbatim>\<open>[object Object]\<close> first, an array the
  comma-joined texts of its elements.
\<close>

fun to_number :: "jsval \<Rightarrow> jsnum" where
  "to_number JUndefined = NaN"
| "to_number JNull = Fin 0"
| "to_number (JBool b) = (if b then Fin 1 else Fin 0)"
| "to_number (JNum n) = n"
| "to_number (JStr s) = to_number_str s"
| "to_number (JObj kvs) = NaN"
| "to_number (JArr []) = Fin 0"
| "to_number (JArr [JUndefined]) = Fin 0"
| "to_number (JArr [JNull]) = Fin 0"
| "to_number (JArr [JBool b]) = NaN"
| "to_number (JArr [JNum n]) = n"
| "to_number (JArr [JStr s]) = to_number_str s"
| "to_number (JArr [JObj kvs]) = NaN"
| "to_number (JArr [JArr ys]) = to_number (JArr ys)"
| "to_number (JArr (x # y # zs)) = NaN"

definition js_lt :: "jsval \<Rightarrow> jsnum \<Rightarrow> bool" where
  "js_lt v c = num_lt (to_number v) c"

subsection \<open>Property access\<close>

text \<open>
  \<^verbatim>\<open>v.k\<close> for a value that is neither \<^verbatim>\<open>null\<close> nor \<^verbatim>\<open>undefined\<close>, and a key \<^verbatim>\<open>k\<close>
  that is not an array index: an own property of an object, the \<^verbatim>\<open>length\<close> of an array
  or of a string, \<^verbatim>\<open>undefined\<close> otherwise. The program reads no property that the
  prototypes define, \<^verbatim>\<open>length\<close>, \<^verbatim>\<open>map\<close> and \<^verbatim>\<open>slice\<close> apart; the last two are calls,
  modelled below. A string's length is only compared with 0.
\<close>

fun js_get :: "jsval \<Rightarrow> string \<Rightarrow> jsval" where
  "js_get (JObj kvs) k = (case map_of kvs k of Some v \<Rightarrow> v | None \<Rightarrow> JUndefined)"
| "js_get (JArr xs) k = (if k = ''length'' then JNum (Fin (of_nat (length xs))) else JUndefined)"
| "js_get (JStr s) k = (if k = ''length'' then JNum (Fin (of_nat (length s))) else JUndefined)"
| "js_get v k = JUndefined"

definition nullish :: "jsval \<Rightarrow> bool" where
  "nullish v = (v = JNull \<or> v = JUndefined)"

text \<open>\<^verbatim>\<open>v.k\<close> for any value: reading a property of \<^verbatim>\<open>null\<close> or \<^verbatim>\<open>undefined\<close> throws.\<close>

definition get_prop :: "jsval \<Rightarrow> string \<Rightarrow> js_error + jsval" where
  "get_prop v k =
     (if nullish v then Inl (TypeError (''Cannot read properties of null or undefined: '' @ k))
      else Inr (js_get v k))"

text \<open>
  \<^verbatim>\<open>v?.[0]\<close>: \<^verbatim>\<open>undefined\<close> for \<^verbatim>\<open>null\<close> and \<^verbatim>\<open>undefined\<close>, the first element of an
  array, the first character of a string (here its first byte, which is the character
  for ASCII text), the property \<^verbatim>\<open>"0"\<close> of an object.
\<close>

fun opt_index0 :: "jsval \<Rightarrow> jsval" where
  "opt_index0 (JArr (x # xs)) = x"
| "opt_index0 (JStr (c # cs)) = JStr [c]"
| "opt_index0 (JObj kvs) = js_get (JObj kvs) ''0''"
| "opt_index0 v = JUndefined"

text \<open>
  \<^verbatim>\<open>v.map(f)\<close> with a callback of the element and its index. Only an array has the
  method; the call throws otherwise, and when the callback throws.
\<close>

fun map_result :: "(jsval \<Rightarrow> nat \<Rightarrow> js_error + jsval) \<Rightarrow> nat \<Rightarrow> jsval list \<Rightarrow> js_error + jsval list" where
  "map_result f i [] = Inr []"
| "map_result f i (x # xs) =
     (case f x i of
        Inl e \<Rightarrow> Inl e
      | Inr y \<Rightarrow> (case map_result f (Suc i) xs of Inl e \<Rightarrow> Inl e | Inr ys \<Rightarrow> Inr (y # ys)))"

definition js_map :: "(jsval \<Rightarrow> nat \<Rightarrow> js_error + jsval) \<Rightarrow> jsval \<Rightarrow> js_error + jsval" where
  "js_map f v =
     (case v of
        JArr xs \<Rightarrow> (case map_result f 0 xs of Inl e \<Rightarrow> Inl e | Inr ys \<Rightarrow> Inr (JArr ys))
      | _ \<Rightarrow> Inl (TypeError ''map is not a function''))"

section \<open>The weather adapter: location names\<close>

record region =
  region_name :: string
  region_minLat :: rat
  region_maxLat :: rat
  region_minLon :: rat
  region_maxLon :: rat

definition regions :: "region list" where
  "regions =
    [ \<lparr>region_name = ''North Pacific'', region_minLat = 30, region_maxLat = 60, region_minLon = 120, region_maxLon = -100\<rparr>,
      \<lparr>region_name = ''South Pacific'', region_minLat = -60, region_maxLat = -10, region_minLon = 100, region_maxLon = 180\<rparr>,
      \<lparr>region_name = ''Atlantic Ocean'', region_minLat = -60, region_maxLat = 60, region_minLon = -100, region_maxLon = 0\<rparr>,
      \<lparr>region_name = ''Indian Ocean'', region_minLat = -60, region_maxLat = 30, region_minLon = 20, region_maxLon = 120\<rparr>,
      \<lparr>region_name = ''Arctic Ocean'', region_minLat = 60, region_maxLat = 90, region_minLon = -180, region_maxLon = 180\<rparr> ]"

definition in_region :: "jsnum \<Rightarrow> jsnum \<Rightarrow> region \<Rightarrow> bool" where
  "in_region lat lon r =
     (num_ge lat (Fin (region_minLat r)) \<and> num_le lat (Fin (region_maxLat r)) \<and>
      num_ge lon (Fin (region_minLon r)) \<and> num_le lon (Fin (region_maxLon r)))"

text \<open>
  The mark after each coordinate, as the source file has it: the bytes C2 AC E2 88 9E
  (the characters U+00AC and U+221E).
\<close>

definition degree_mark :: string where
  "degree_mark = [CHR 0xC2, CHR 0xAC, CHR 0xE2, CHR 0x88, CHR 0x9E]"

definition getLocationName :: "js_runtime \<Rightarrow> jsnum \<Rightarrow> jsnum \<Rightarrow> string" where
  "getLocationName rt lat lon =
     (case find (in_region lat lon) regions of
        Some r \<Rightarrow> region_name r
      | None \<Rightarrow> to_fixed rt 1 lat @ degree_mark @ '', '' @ to_fixed rt 1 lon @ degree_mark)"

section \<open>The network\<close>

text \<open>
  \<^verbatim>\<open>axios.get(url, {params, timeout})\<close> either rejects (no connection, a timeout, a status
  outside 2xx) or resolves to a response, of which the program reads \<^verbatim>\<open>response.data\<close>
  only: the parsed JSON body, the body's text when it is no JSON, \<^verbatim>\<open>undefined\<close> or the
  empty text when there is none. The network is a function from the request to this
  outcome; no operation sends the same request twice, so a function loses no behaviour.
\<close>

record request =
  req_url :: string
  req_params :: "(string \<times> jsval) list"
  req_timeout :: nat

datatype axios_result = Rejected js_error | Resolved jsval

type_synonym network = "request \<Rightarrow> axios_result"

text \<open>\<^verbatim>\<open>ToString\<close>, for the values a template literal interpolates.\<close>

definition num_text :: "js_runtime \<Rightarrow> jsnum \<Rightarrow> string" where
  "num_text rt n =
     (case n of NaN \<Rightarrow> ''NaN'' | PosInf \<Rightarrow> ''Infinity'' | NegInf \<Rightarrow> ''-Infinity''
      | Fin q \<Rightarrow> num_to_string rt q)"

fun join_comma :: "string list \<Rightarrow> string" where
  "join_comma [] = []"
| "join_comma [x] = x"
| "join_comma (x # y # zs) = x @ '','' @ join_comma (y # zs)"

fun to_string :: "js_runtime \<Rightarrow> jsval \<Rightarrow> string" where
  "to_string rt JUndefined = ''undefined''"
| "to_string rt JNull = ''null''"
| "to_string rt (JBool b) = (if b then ''true'' else ''false'')"
| "to_string rt (JNum n) = num_text rt n"
| "to_string rt (JStr s) = s"
| "to_string rt (JObj kvs) = ''[object Object]''"
| "to_string rt (JArr xs) =
     join_comma (map (\<lambda>x. if x = JNull \<or> x = JUndefined then [] else to_string rt x) xs)"

text \<open>Setting a key of an object literal, and the spread \<^verbatim>\<open>{...target, ...source}\<close>.\<close>

fun obj_set :: "string \<Rightarrow> jsval \<Rightarrow> (string \<times> jsval) list \<Rightarrow> (string \<times> jsval) list" where
  "obj_set k v [] = [(k, v)]"
| "obj_set k v ((k', v') # ps) = (if k' = k then (k, v) # ps else (k', v') # obj_set k v ps)"

definition obj_spread :: "(string \<times> jsval) list \<Rightarrow> (string \<times> jsval) list \<Rightarrow> (string \<times> jsval) list" where
  "obj_spread target source = foldl (\<lambda>acc (k, v). obj_set k v acc) target source"

section \<open>The species catalog adapter (fishbase.js)\<close>

definition FISHBASE_API :: string where
  "FISHBASE_API = ''https://fishbase.ropensci.org/api''"

text \<open>The icon of a fish record, as the source file has it (six bytes).\<close>

definition fish_icon :: string where
  "fish_icon = [CHR 0xC4, CHR 0x9F, CHR 0xC5, CHR 0xB8, CHR 0xC5, CHR 0xB8]"

definition getDefaultFishData :: jsval where
  "getDefaultFishData = JArr
    [ JObj [(''id'', JNum (Fin 1)), (''name'', JStr ''Tuna''), (''genus'', JStr ''Thunnus''),
            (''family'', JStr ''Scombridae''), (''marine'', JNum (Fin 1)),
            (''freshwater'', JNum (Fin 0)), (''brackish'', JNum (Fin 0)), (''icon'', JStr fish_icon)],
      JObj [(''id'', JNum (Fin 2)), (''name'', JStr ''Salmon''), (''genus'', JStr ''Salmo''),
            (''family'', JStr ''Salmonidae''), (''marine'', JNum (Fin 1)),
            (''freshwater'', JNum (Fin 1)), (''brackish'', JNum (Fin 1)), (''icon'', JStr fish_icon)],
      JObj [(''id'', JNum (Fin 3)), (''name'', JStr ''Cod''), (''genus'', JStr ''Gadus''),
            (''family'', JStr ''Gadidae''), (''marine'', JNum (Fin 1)),
            (''freshwater'', JNum (Fin 0)), (''brackish'', JNum (Fin 0)), (''icon'', JStr fish_icon)],
      JObj [(''id'', JNum (Fin 4)), (''name'', JStr ''Anchovy''), (''genus'', JStr ''Engraulis''),
            (''family'', JStr ''Engraulidae''), (''marine'', JNum (Fin 1)),
            (''freshwater'', JNum (Fin 0)), (''brackish'', JNum (Fin 0)), (''icon'', JStr fish_icon)],
      JObj [(''id'', JNum (Fin 5)), (''name'', JStr ''Herring''), (''genus'', JStr ''Clupea''),
            (''family'', JStr ''Clupeidae''), (''marine'', JNum (Fin 1)),
            (''freshwater'', JNum (Fin 0)), (''brackish'', JNum (Fin 0)), (''icon'', JStr fish_icon)] ]"

text \<open>
  The callback of \<^verbatim>\<open>response.data.map\<close> in \<^verbatim>\<open>getFishSpecies\<close>: the record built from
  an upstream record that is neither \<^verbatim>\<open>null\<close> nor \<^verbatim>\<open>undefined\<close>.
\<close>

definition format_fish :: "jsval \<Rightarrow> jsval" where
  "format_fish fish = JObj
    [ (''id'', js_or (js_get fish ''SpecCode'') (js_get fish ''id'')),
      (''name'', js_or (js_or (js_get fish ''Species'') (js_get fish ''name'')) (JStr ''Unknown Species'')),
      (''genus'', js_or (js_get fish ''Genus'') (JStr ''Unknown'')),
      (''family'', js_or (js_get fish ''Family'') (JStr ''Unknown'')),
      (''freshwater'', js_or (js_get fish ''Freshwater'') (JNum (Fin 0))),
      (''marine'', js_or (js_get fish ''Marine'') (JNum (Fin 1))),
      (''brackish'', js_or (js_get fish ''Brackish'') (JNum (Fin 0))),
      (''icon'', JStr fish_icon) ]"

definition fish_callback :: "jsval \<Rightarrow> nat \<Rightarrow> js_error + jsval" where
  "fish_callback fish idx =
     (case get_prop fish ''SpecCode'' of Inl e \<Rightarrow> Inl e | Inr c \<Rightarrow> Inr (format_fish fish))"

definition species_request :: "(string \<times> jsval) list \<Rightarrow> request" where
  "species_request ps = \<lparr>req_url = FISHBASE_API @ ''/species'', req_params = ps, req_timeout = 10000\<rparr>"

text \<open>The body of the \<^verbatim>\<open>try\<close> block of \<^verbatim>\<open>getFishSpecies\<close>.\<close>

definition getFishSpecies_try :: "network \<Rightarrow> jsval \<Rightarrow> js_error + jsval" where
  "getFishSpecies_try net limit =
     (case net (species_request [(''limit'', limit)]) of
        Rejected e \<Rightarrow> Inl e
      | Resolved data \<Rightarrow>
          if \<not> truthy data \<or> js_get data ''length'' = JNum (Fin 0) then Inr getDefaultFishData
          else js_map fish_callback data)"

text \<open>
  \<^verbatim>\<open>getFishSpecies(limit = 10)\<close>: the default stands for an argument that is
  \<^verbatim>\<open>undefined\<close>; the \<^verbatim>\<open>catch\<close> block logs the error and returns the default data.
\<close>

definition getFishSpecies :: "network \<Rightarrow> jsval \<Rightarrow> js_error + jsval" where
  "getFishSpecies net limit0 =
     (let limit = (if limit0 = JUndefined then JNum (Fin 10) else limit0) in
      case getFishSpecies_try net limit of
        Inr v \<Rightarrow> Inr v
      | Inl e \<Rightarrow> Inr getDefaultFishData)"

definition format_family_fish :: "jsval \<Rightarrow> jsval \<Rightarrow> jsval" where
  "format_family_fish family fish = JObj
    [ (''id'', js_or (js_get fish ''SpecCode'') (js_get fish ''id'')),
      (''name'', js_or (js_get fish ''Species'') (js_get fish ''name'')),
      (''family'', family),
      (''icon'', JStr fish_icon) ]"

definition family_callback :: "jsval \<Rightarrow> jsval \<Rightarrow> nat \<Rightarrow> js_error + jsval" where
  "family_callback family fish idx =
     (case get_prop fish ''SpecCode'' of Inl e \<Rightarrow> Inl e | Inr c \<Rightarrow> Inr (format_family_fish family fish))"

definition getFishByFamily_try :: "network \<Rightarrow> jsval \<Rightarrow> js_error + jsval" where
  "getFishByFamily_try net family =
     (case net (species_request [(''Family'', family), (''limit'', JNum (Fin 5))]) of
        Rejected e \<Rightarrow> Inl e
      | Resolved data \<Rightarrow>
          if \<not> truthy data \<or> js_get data ''length'' = JNum (Fin 0) then Inr (JArr [])
          else js_map (family_callback family) data)"

definition getFishByFamily :: "network \<Rightarrow> jsval \<Rightarrow> js_error + jsval" where
  "getFishByFamily net family0 =
     (let family = (if family0 = JUndefined then JStr ''Salmonidae'' else family0) in
      case getFishByFamily_try net family of
        Inr v \<Rightarrow> Inr v
      | Inl e \<Rightarrow> Inr (JArr []))"

section \<open>The observation archive adapter (obis.js)\<close>

definition OBIS_API :: string where
  "OBIS_API = ''https://api.obis.org/v3''"

definition wave_icon :: string where
  "wave_icon = [CHR 0xF0, CHR 0x9F, CHR 0x8C, CHR 0x8A]"

definition chart_icon :: string where
  "chart_icon = [CHR 0xF0, CHR 0x9F, CHR 0x93, CHR 0x8A]"

definition whale_icon :: string where
  "whale_icon = [CHR 0xF0, CHR 0x9F, CHR 0x90, CHR 0x8B]"

definition turtle_icon :: string where
  "turtle_icon = [CHR 0xF0, CHR 0x9F, CHR 0x90, CHR 0xA2]"

definition shark_icon :: string where
  "shark_icon = [CHR 0xF0, CHR 0x9F, CHR 0xA6, CHR 0x88]"

definition circle_icon :: string where
  "circle_icon = [CHR 0xF0, CHR 0x9F, CHR 0x94, CHR 0xB5]"

definition getDefaultBiodiversityData :: jsval where
  "getDefaultBiodiversityData = JObj
    [ (''total'', JNum (Fin 5)),
      (''observations'', JArr
        [ JObj [(''id'', JNum (Fin 1)), (''species'', JStr ''Balaenoptera musculus (Blue Whale)''),
                (''commonName'', JStr ''Blue Whale''), (''latitude'', JNum (Fin 37.5)),
                (''longitude'', JNum (Fin (- 122.4))), (''date'', JStr ''2024-02-01''),
                (''datasetName'', JStr ''Marine Mammal Observations''), (''icon'', JStr whale_icon)],
          JObj [(''id'', JNum (Fin 2)), (''species'', JStr ''Megaptera novaeangliae (Humpback Whale)''),
                (''commonName'', JStr ''Humpback Whale''), (''latitude'', JNum (Fin 37.8)),
                (''longitude'', JNum (Fin (- 123.1))), (''date'', JStr ''2024-02-05''),
                (''datasetName'', JStr ''Whale Migration Tracking''), (''icon'', JStr whale_icon)],
          JObj [(''id'', JNum (Fin 3)), (''species'', JStr ''Chelonia mydas (Green Sea Turtle)''),
                (''commonName'', JStr ''Green Sea Turtle''), (''latitude'', JNum (Fin 25.5)),
                (''longitude'', JNum (Fin (- 80.2))), (''date'', JStr ''2024-02-08''),
                (''datasetName'', JStr ''Sea Turtle Database''), (''icon'', JStr turtle_icon)],
          JObj [(''id'', JNum (Fin 4)), (''species'', JStr ''Echinorhinus brucus (Bramble Shark)''),
                (''commonName'', JStr ''Bramble Shark''), (''latitude'', JNum (Fin 45.2)),
                (''longitude'', JNum (Fin (- 124.5))), (''date'', JStr ''2024-02-10''),
                (''datasetName'', JStr ''Deep Sea Research''), (''icon'', JStr shark_icon)],
          JObj [(''id'', JNum (Fin 5)),
                (''species'', JStr ''Strongylocentrotus purpuratus (Purple Sea Urchin)''),
                (''commonName'', JStr ''Purple Sea Urchin''), (''latitude'', JNum (Fin 34.1)),
                (''longitude'', JNum (Fin (- 119.3))), (''date'', JStr ''2024-02-12''),
                (''datasetName'', JStr ''Kelp Forest Survey''), (''icon'', JStr circle_icon)] ]),
      (''source'', JStr ''OBIS API (Fallback)'') ]"

definition getDefaultSpeciesStats :: jsval where
  "getDefaultSpeciesStats = JObj
    [ (''totalSpecies'', JNum (Fin 234567)),
      (''totalObservations'', JNum (Fin 123456789)),
      (''totalDatasets'', JNum (Fin 3251)),
      (''icon'', JStr chart_icon) ]"

definition format_observation :: "jsval \<Rightarrow> jsval" where
  "format_observation obs = JObj
    [ (''id'', js_get obs ''id''),
      (''species'', js_or (js_or (js_get obs ''scientificName'') (js_get obs ''species'')) (JStr ''Unknown'')),
      (''commonName'', js_or (js_get obs ''commonName'') (JStr [])),
      (''latitude'', js_get obs ''decimalLatitude''),
      (''longitude'', js_get obs ''decimalLongitude''),
      (''date'', js_get obs ''eventDate''),
      (''datasetName'', js_or (js_get obs ''datasetName'') (JStr ''OBIS'')),
      (''icon'', JStr wave_icon) ]"

definition observation_callback :: "jsval \<Rightarrow> nat \<Rightarrow> js_error + jsval" where
  "observation_callback obs idx =
     (case get_prop obs ''id'' of Inl e \<Rightarrow> Inl e | Inr c \<Rightarrow> Inr (format_observation obs))"

text \<open>
  \<^verbatim>\<open>getBiodiversityObservations(options = {})\<close>. The options are an object, given by its
  properties; the request's parameters are \<^verbatim>\<open>limit\<close> and \<^verbatim>\<open>offset\<close> with their
  defaults, overwritten and extended by the options.
\<close>

definition occurrence_request :: "(string \<times> jsval) list \<Rightarrow> request" where
  "occurrence_request options =
     (let params = obj_spread
            [ (''limit'', js_or (js_get (JObj options) ''limit'') (JNum (Fin 20))),
              (''offset'', js_or (js_get (JObj options) ''offset'') (JNum (Fin 0))) ]
            options
      in \<lparr>req_url = OBIS_API @ ''/occurrence'', req_params = params, req_timeout = 10000\<rparr>)"

definition getBiodiversityObservations_try :: "network \<Rightarrow> (string \<times> jsval) list \<Rightarrow> js_error + jsval" where
  "getBiodiversityObservations_try net options =
     (case net (occurrence_request options) of
           Rejected e \<Rightarrow> Inl e
         | Resolved data \<Rightarrow>
             if \<not> truthy data \<or> \<not> truthy (js_get data ''results'') then Inr getDefaultBiodiversityData
             else (case js_map observation_callback (js_get data ''results'') of
                     Inl e \<Rightarrow> Inl e
                   | Inr observations \<Rightarrow> Inr (JObj
                       [ (''total'', js_or (js_get data ''total'') (js_get observations ''length'')),
                         (''observations'', observations),
                         (''source'', JStr ''OBIS API'') ])))"

definition getBiodiversityObservations :: "network \<Rightarrow> (string \<times> jsval) list \<Rightarrow> js_error + jsval" where
  "getBiodiversityObservations net options =
     (case getBiodiversityObservations_try net options of
        Inr v \<Rightarrow> Inr v
      | Inl e \<Rightarrow> Inr getDefaultBiodiversityData)"

definition statistics_request :: request where
  "statistics_request = \<lparr>req_url = OBIS_API @ ''/statistics'', req_params = [], req_timeout = 10000\<rparr>"

definition getSpeciesStats_try :: "network \<Rightarrow> js_error + jsval" where
  "getSpeciesStats_try net =
     (case net statistics_request of
        Rejected e \<Rightarrow> Inl e
      | Resolved data \<Rightarrow>
          if \<not> truthy data then Inr getDefaultSpeciesStats
          else Inr (JObj
            [ (''totalSpecies'', js_or (js_get data ''species'') (JNum (Fin 200000))),
              (''totalObservations'', js_or (js_get data ''observations'') (JNum (Fin 100000000))),
              (''totalDatasets'', js_or (js_get data ''datasets'') (JNum (Fin 3000))),
              (''icon'', JStr chart_icon) ]))"

definition getSpeciesStats :: "network \<Rightarrow> js_error + jsval" where
  "getSpeciesStats net =
     (case getSpeciesStats_try net of
        Inr v \<Rightarrow> Inr v
      | Inl e \<Rightarrow> Inr getDefaultSpeciesStats)"

definition format_area_observation :: "jsval \<Rightarrow> jsval" where
  "format_area_observation obs = JObj
    [ (''species'', js_or (js_get obs ''scientificName'') (JStr ''Unknown'')),
      (''lat'', js_get obs ''decimalLatitude''),
      (''lon'', js_get obs ''decimalLongitude'') ]"

definition area_callback :: "jsval \<Rightarrow> nat \<Rightarrow> js_error + jsval" where
  "area_callback obs idx =
     (case get_prop obs ''scientificName'' of Inl e \<Rightarrow> Inl e | Inr c \<Rightarrow> Inr (format_area_observation obs))"

definition area_geometry :: "js_runtime \<Rightarrow> jsval \<Rightarrow> jsval \<Rightarrow> jsval \<Rightarrow> jsval \<Rightarrow> string" where
  "area_geometry rt minLat maxLat minLon maxLon =
     ''POLYGON(('' @ to_string rt minLon @ '' '' @ to_string rt minLat @ '',''
       @ to_string rt maxLon @ '' '' @ to_string rt minLat @ '',''
       @ to_string rt maxLon @ '' '' @ to_string rt maxLat @ '',''
       @ to_string rt minLon @ '' '' @ to_string rt maxLat @ '',''
       @ to_string rt minLon @ '' '' @ to_string rt minLat @ ''))''"

definition area_request :: "js_runtime \<Rightarrow> jsval \<Rightarrow> jsval \<Rightarrow> jsval \<Rightarrow> jsval \<Rightarrow> request" where
  "area_request rt minLat maxLat minLon maxLon =
     \<lparr>req_url = OBIS_API @ ''/occurrence'',
      req_params = [ (''geometry'', JStr (area_geometry rt minLat maxLat minLon maxLon)),
                     (''limit'', JNum (Fin 50)) ],
      req_timeout = 10000\<rparr>"

definition getObservationsByArea_try ::
  "js_runtime \<Rightarrow> network \<Rightarrow> jsval \<Rightarrow> jsval \<Rightarrow> jsval \<Rightarrow> jsval \<Rightarrow> js_error + jsval" where
  "getObservationsByArea_try rt net minLat maxLat minLon maxLon =
     (case net (area_request rt minLat maxLat minLon maxLon) of
        Rejected e \<Rightarrow> Inl e
      | Resolved data \<Rightarrow>
          if \<not> truthy data \<or> \<not> truthy (js_get data ''results'') then Inr (JArr [])
          else js_map area_callback (js_get data ''results''))"

definition getObservationsByArea ::
  "js_runtime \<Rightarrow> network \<Rightarrow> jsval \<Rightarrow> jsval \<Rightarrow> jsval \<Rightarrow> jsval \<Rightarrow> js_error + jsval" where
  "getObservationsByArea rt net minLat maxLat minLon maxLon =
     (case getObservationsByArea_try rt net minLat maxLat minLon maxLon of
        Inr v \<Rightarrow> Inr v
      | Inl e \<Rightarrow> Inr (JArr []))"

section \<open>The marine weather adapter (ocean-weather.js)\<close>

definition OPEN_METEO_API :: string where
  "OPEN_METEO_API = ''https://api.open-meteo.com/v1''"

text \<open>The two icons and the temperature unit, as the bytes of the source file.\<close>

definition ocean_icon :: string where
  "ocean_icon = [CHR 0xEF, CHR 0xA3, CHR 0xBF, CHR 0xC3, CHR 0xBC, CHR 0xC3, CHR 0xA5, CHR 0xC3, CHR 0xA4]"

definition thermometer_icon :: string where
  "thermometer_icon =
     [CHR 0xEF, CHR 0xA3, CHR 0xBF, CHR 0xC3, CHR 0xBC, CHR 0xC3, CHR 0xA5, CHR 0xC2, CHR 0xB0,
      CHR 0xC3, CHR 0x94, CHR 0xE2, CHR 0x88, CHR 0x8F, CHR 0xC3, CHR 0xA8]"

definition temp_unit :: string where
  "temp_unit = degree_mark @ ''C''"

definition getWaveCondition :: "jsval \<Rightarrow> string" where
  "getWaveCondition height =
     (if js_lt height (Fin 1) then ''Calm''
      else if js_lt height (Fin 2) then ''Slight''
      else if js_lt height (Fin 3) then ''Light''
      else if js_lt height (Fin 4) then ''Moderate''
      else if js_lt height (Fin 6) then ''Rough''
      else if js_lt height (Fin 10) then ''Very Rough''
      else ''Phenomenal'')"

definition getTemperatureCondition :: "jsval \<Rightarrow> string" where
  "getTemperatureCondition temp =
     (if js_lt temp (Fin 5) then ''Very Cold''
      else if js_lt temp (Fin 10) then ''Cold''
      else if js_lt temp (Fin 15) then ''Cool''
      else if js_lt temp (Fin 20) then ''Mild''
      else if js_lt temp (Fin 25) then ''Warm''
      else ''Very Warm'')"

definition location_of :: "js_runtime \<Rightarrow> jsnum \<Rightarrow> jsnum \<Rightarrow> jsval" where
  "location_of rt latitude longitude = JObj
    [ (''latitude'', JNum latitude),
      (''longitude'', JNum longitude),
      (''name'', JStr (getLocationName rt latitude longitude)) ]"

text \<open>
  The coordinates are numbers, as the router and the multi-location fetch pass them; the
  defaults \<^verbatim>\<open>37.5\<close> and \<^verbatim>\<open>-122.4\<close> of the parameters stand for omitted arguments.
\<close>

definition getDefaultOceanWeather :: "js_runtime \<Rightarrow> jsnum \<Rightarrow> jsnum \<Rightarrow> jsval" where
  "getDefaultOceanWeather rt latitude longitude = JObj
    [ (''location'', location_of rt latitude longitude),
      (''current'', JObj
        [ (''waveHeight'', JStr ''1.5''),
          (''waveHeightUnit'', JStr ''meters''),
          (''wavePeriod'', JStr ''8.2''),
          (''wavePeriodUnit'', JStr ''seconds''),
          (''windWaveHeight'', JStr ''0.9''),
          (''condition'', JStr ''Light'') ]),
      (''daily'', JObj
        [ (''maxTemp'', JStr ''15.2''),
          (''minTemp'', JStr ''12.8''),
          (''tempUnit'', JStr temp_unit) ]),
      (''forecast'', JArr
        [ JObj [(''day'', JNum (Fin 0)), (''waveHeight'', JStr ''1.5'')],
          JObj [(''day'', JNum (Fin 1)), (''waveHeight'', JStr ''1.8'')],
          JObj [(''day'', JNum (Fin 2)), (''waveHeight'', JStr ''2.1'')],
          JObj [(''day'', JNum (Fin 3)), (''waveHeight'', JStr ''1.9'')],
          JObj [(''day'', JNum (Fin 4)), (''waveHeight'', JStr ''1.6'')],
          JObj [(''day'', JNum (Fin 5)), (''waveHeight'', JStr ''1.4'')],
          JObj [(''day'', JNum (Fin 6)), (''waveHeight'', JStr ''1.7'')] ]),
      (''source'', JStr ''Open-Meteo Marine API (Fallback)''),
      (''icon'', JStr ocean_icon) ]"

definition getDefaultTemperatureData :: "js_runtime \<Rightarrow> jsnum \<Rightarrow> jsnum \<Rightarrow> jsval" where
  "getDefaultTemperatureData rt latitude longitude = JObj
    [ (''location'', location_of rt latitude longitude),
      (''current'', JObj
        [ (''temperature'', JStr ''13.5''),
          (''unit'', JStr temp_unit),
          (''humidity'', JStr ''72''),
          (''condition'', JStr ''Cool'') ]),
      (''daily'', JObj
        [ (''maxTemp'', JStr ''15.2''),
          (''minTemp'', JStr ''12.8''),
          (''precipitation'', JNum (Fin 0)) ]),
      (''source'', JStr ''Open-Meteo Weather API (Fallback)''),
      (''icon'', JStr thermometer_icon) ]"

text \<open>
  \<^verbatim>\<open>v.slice(b, e)\<close> for \<open>b \<le> e\<close>: arrays and strings have the method, on any other
  value the call throws.
\<close>

definition js_slice :: "nat \<Rightarrow> nat \<Rightarrow> jsval \<Rightarrow> js_error + jsval" where
  "js_slice b e v =
     (case v of
        JArr xs \<Rightarrow> Inr (JArr (take (e - b) (drop b xs)))
      | JStr s \<Rightarrow> Inr (JStr (take (e - b) (drop b s)))
      | _ \<Rightarrow> Inl (TypeError ''slice is not a function''))"

definition forecast_callback :: "js_runtime \<Rightarrow> jsval \<Rightarrow> nat \<Rightarrow> js_error + jsval" where
  "forecast_callback rt height idx = Inr (JObj
     [ (''day'', JNum (Fin (of_nat idx))),
       (''waveHeight'', JStr (to_fixed rt 2 (parseFloat height))) ])"

text \<open>\<^verbatim>\<open>typeof t === 'number' ? t.toFixed(1) : t\<close>.\<close>

definition format_temp :: "js_runtime \<Rightarrow> jsval \<Rightarrow> jsval" where
  "format_temp rt t = (case t of JNum n \<Rightarrow> JStr (to_fixed rt 1 n) | _ \<Rightarrow> t)"

text \<open>\<^verbatim>\<open>section.key?.[0]\<close>, the first entry of a series of the response.\<close>

definition first_of :: "jsval \<Rightarrow> string \<Rightarrow> jsval" where
  "first_of section_obj key = opt_index0 (js_get section_obj key)"

definition marine_request :: "jsnum \<Rightarrow> jsnum \<Rightarrow> request" where
  "marine_request latitude longitude =
     \<lparr>req_url = OPEN_METEO_API @ ''/marine'',
      req_params =
        [ (''latitude'', JNum latitude),
          (''longitude'', JNum longitude),
          (''hourly'', JStr ''wave_height,wave_period,wind_wave_height,wind_wave_direction''),
          (''daily'', JStr ''wave_height_max,temperature_2m_max,temperature_2m_min''),
          (''timezone'', JStr ''auto''),
          (''forecast_days'', JNum (Fin 7)) ],
      req_timeout = 10000\<rparr>"

text \<open>
  The snapshot that \<^verbatim>\<open>getOceanWeather\<close> builds from a response body that is truthy,
  in three parts: the \<^verbatim>\<open>current\<close> object from \<^verbatim>\<open>data.hourly || {}\<close>, the \<^verbatim>\<open>daily\<close>
  object and the \<^verbatim>\<open>forecast\<close> array from \<^verbatim>\<open>data.daily || {}\<close>.
\<close>

definition live_current :: "js_runtime \<Rightarrow> jsval \<Rightarrow> jsval" where
  "live_current rt hourly =
     (let latestWaveHeight = js_or (first_of hourly ''wave_height'') (JNum (Fin 0));
          latestWavePeriod = js_or (first_of hourly ''wave_period'') (JNum (Fin 0));
          latestWindWaveHeight = js_or (first_of hourly ''wind_wave_height'') (JNum (Fin 0))
      in JObj
        [ (''waveHeight'', JStr (to_fixed rt 2 (parseFloat latestWaveHeight))),
          (''waveHeightUnit'', JStr ''meters''),
          (''wavePeriod'', JStr (to_fixed rt 2 (parseFloat latestWavePeriod))),
          (''wavePeriodUnit'', JStr ''seconds''),
          (''windWaveHeight'', JStr (to_fixed rt 2 (parseFloat latestWindWaveHeight))),
          (''condition'', JStr (getWaveCondition latestWaveHeight)) ])"

definition live_daily :: "js_runtime \<Rightarrow> jsval \<Rightarrow> jsval" where
  "live_daily rt daily =
     (let maxTemp = js_or (first_of daily ''temperature_2m_max'') (JStr ''N/A'');
          minTemp = js_or (first_of daily ''temperature_2m_min'') (JStr ''N/A'')
      in JObj
        [ (''maxTemp'', format_temp rt maxTemp),
          (''minTemp'', format_temp rt minTemp),
          (''tempUnit'', JStr temp_unit) ])"

definition live_forecast :: "js_runtime \<Rightarrow> jsval \<Rightarrow> js_error + jsval" where
  "live_forecast rt daily =
     (if truthy (js_get daily ''wave_height_max'')
      then (case js_slice 0 7 (js_get daily ''wave_height_max'') of
              Inl e \<Rightarrow> Inl e
            | Inr days \<Rightarrow> js_map (forecast_callback rt) days)
      else Inr (JArr []))"

definition live_ocean_weather :: "js_runtime \<Rightarrow> jsnum \<Rightarrow> jsnum \<Rightarrow> jsval \<Rightarrow> js_error + jsval" where
  "live_ocean_weather rt latitude longitude data =
     (let hourly = js_or (js_get data ''hourly'') (JObj []);
          daily = js_or (js_get data ''daily'') (JObj [])
      in case live_forecast rt daily of
           Inl e \<Rightarrow> Inl e
         | Inr forecast \<Rightarrow> Inr (JObj
             [ (''location'', location_of rt latitude longitude),
               (''current'', live_current rt hourly),
               (''daily'', live_daily rt daily),
               (''forecast'', forecast),
               (''source'', JStr ''Open-Meteo Marine API''),
               (''icon'', JStr ocean_icon) ]))"

definition getOceanWeather_try :: "js_runtime \<Rightarrow> network \<Rightarrow> jsnum \<Rightarrow> jsnum \<Rightarrow> js_error + jsval" where
  "getOceanWeather_try rt net latitude longitude =
     (case net (marine_request latitude longitude) of
        Rejected e \<Rightarrow> Inl e
      | Resolved data \<Rightarrow>
          if \<not> truthy data then Inr (getDefaultOceanWeather rt latitude longitude)
          else live_ocean_weather rt latitude longitude data)"

definition getOceanWeather :: "js_runtime \<Rightarrow> network \<Rightarrow> jsnum \<Rightarrow> jsnum \<Rightarrow> js_error + jsval" where
  "getOceanWeather rt net latitude longitude =
     (case getOceanWeather_try rt net latitude longitude of
        Inr v \<Rightarrow> Inr v
      | Inl e \<Rightarrow> Inr (getDefaultOceanWeather rt latitude longitude))"

definition weather_request :: "jsnum \<Rightarrow> jsnum \<Rightarrow> request" where
  "weather_request latitude longitude =
     \<lparr>req_url = OPEN_METEO_API @ ''/weather'',
      req_params =
        [ (''latitude'', JNum latitude),
          (''longitude'', JNum longitude),
          (''current'', JStr ''temperature_2m,relative_humidity_2m''),
          (''daily'', JStr ''temperature_2m_max,temperature_2m_min,precipitation_sum''),
          (''timezone'', JStr ''auto'') ],
      req_timeout = 10000\<rparr>"

definition live_water_temperature :: "js_runtime \<Rightarrow> jsnum \<Rightarrow> jsnum \<Rightarrow> jsval \<Rightarrow> jsval" where
  "live_water_temperature rt latitude longitude data =
     (let current = js_or (js_get data ''current'') (JObj []);
          daily = js_or (js_get data ''daily'') (JObj [])
      in JObj
        [ (''location'', location_of rt latitude longitude),
          (''current'', JObj
            [ (''temperature'', js_or (js_get current ''temperature_2m'') (JStr ''N/A'')),
              (''unit'', JStr temp_unit),
              (''humidity'', js_or (js_get current ''relative_humidity_2m'') (JStr ''N/A'')),
              (''condition'', JStr (getTemperatureCondition (js_get current ''temperature_2m''))) ]),
          (''daily'', JObj
            [ (''maxTemp'', js_or (first_of daily ''temperature_2m_max'') (JStr ''N/A'')),
              (''minTemp'', js_or (first_of daily ''temperature_2m_min'') (JStr ''N/A'')),
              (''precipitation'', js_or (first_of daily ''precipitation_sum'') (JNum (Fin 0))) ]),
          (''source'', JStr ''Open-Meteo Weather API''),
          (''icon'', JStr thermometer_icon) ])"

definition getWaterTemperature_try :: "js_runtime \<Rightarrow> network \<Rightarrow> jsnum \<Rightarrow> jsnum \<Rightarrow> js_error + jsval" where
  "getWaterTemperature_try rt net latitude longitude =
     (case net (weather_request latitude longitude) of
        Rejected e \<Rightarrow> Inl e
      | Resolved data \<Rightarrow>
          if \<not> truthy data then Inr (getDefaultTemperatureData rt latitude longitude)
          else Inr (live_water_temperature rt latitude longitude data))"

definition getWaterTemperature :: "js_runtime \<Rightarrow> network \<Rightarrow> jsnum \<Rightarrow> jsnum \<Rightarrow> js_error + jsval" where
  "getWaterTemperature rt net latitude longitude =
     (case getWaterTemperature_try rt net latitude longitude of
        Inr v \<Rightarrow> Inr v
      | Inl e \<Rightarrow> Inr (getDefaultTemperatureData rt latitude longitude))"

subsection \<open>Several locations\<close>

record place =
  place_name :: string
  place_lat :: rat
  place_lon :: rat

definition locations :: "place list" where
  "locations =
    [ \<lparr>place_name = ''San Francisco Bay'', place_lat = 37.5, place_lon = - 122.4\<rparr>,
      \<lparr>place_name = ''Great Barrier Reef'', place_lat = - 16.2, place_lon = 145.8\<rparr>,
      \<lparr>place_name = ''Atlantic Mid-Atlantic Ridge'', place_lat = 42.0, place_lon = - 30.0\<rparr> ]"

text \<open>An entry of the multi-location fallback: they differ in the values given here.\<close>

definition multi_entry :: "string \<Rightarrow> rat \<Rightarrow> rat \<Rightarrow> string \<Rightarrow> string \<Rightarrow> string \<Rightarrow> string \<Rightarrow> jsval" where
  "multi_entry nm lat lon wh wp wwh cond = JObj
    [ (''name'', JStr nm),
      (''location'', JObj [(''latitude'', JNum (Fin lat)), (''longitude'', JNum (Fin lon)), (''name'', JStr nm)]),
      (''current'', JObj
        [ (''waveHeight'', JStr wh),
          (''waveHeightUnit'', JStr ''meters''),
          (''wavePeriod'', JStr wp),
          (''wavePeriodUnit'', JStr ''seconds''),
          (''windWaveHeight'', JStr wwh),
          (''condition'', JStr cond) ]),
      (''icon'', JStr ocean_icon) ]"

definition getDefaultMultiLocationData :: jsval where
  "getDefaultMultiLocationData = JArr
    [ multi_entry ''San Francisco Bay'' 37.5 (- 122.4) ''1.5'' ''8.2'' ''0.9'' ''Light'',
      multi_entry ''Great Barrier Reef'' (- 16.2) 145.8 ''1.2'' ''7.5'' ''0.6'' ''Calm'',
      multi_entry ''Atlantic Mid-Atlantic Ridge'' 42.0 (- 30.0) ''2.3'' ''9.8'' ''1.4'' ''Moderate'' ]"

text \<open>
  The own properties that \<^verbatim>\<open>{...v}\<close> copies from an object. (An array or a string would
  give its indices; the value spread here is always the object that
  \<^verbatim>\<open>getOceanWeather\<close> returns.)
\<close>

fun own_props :: "jsval \<Rightarrow> (string \<times> jsval) list" where
  "own_props (JObj kvs) = kvs"
| "own_props v = []"

text \<open>\<^verbatim>\<open>Promise.all\<close>: all the values, or a rejection (here the first in the list).\<close>

fun promise_all :: "(js_error + jsval) list \<Rightarrow> js_error + jsval list" where
  "promise_all [] = Inr []"
| "promise_all (Inl e # ps) = Inl e"
| "promise_all (Inr v # ps) = (case promise_all ps of Inl e \<Rightarrow> Inl e | Inr vs \<Rightarrow> Inr (v # vs))"

definition location_weather :: "js_runtime \<Rightarrow> network \<Rightarrow> place \<Rightarrow> js_error + jsval" where
  "location_weather rt net loc =
     (case getOceanWeather rt net (Fin (place_lat loc)) (Fin (place_lon loc)) of
        Inl e \<Rightarrow> Inl e
      | Inr weather \<Rightarrow> Inr (JObj (obj_spread [(''name'', JStr (place_name loc))] (own_props weather))))"

definition getOceanDataMultipleLocations :: "js_runtime \<Rightarrow> network \<Rightarrow> js_error + jsval" where
  "getOceanDataMultipleLocations rt net =
     (case promise_all (map (location_weather rt net) locations) of
        Inr results \<Rightarrow> Inr (JArr results)
      | Inl e \<Rightarrow> Inr getDefaultMultiLocationData)"

section \<open>The router (server.js)\<close>

record http_response =
  res_status :: nat
  res_body :: jsval

text \<open>\<^verbatim>\<open>parseFloat(q) || d\<close> for a default \<^verbatim>\<open>d\<close> that is a number.\<close>

definition num_or :: "jsnum \<Rightarrow> jsnum \<Rightarrow> jsnum" where
  "num_or a d = (if truthy (JNum a) then a else d)"

definition error_response :: "js_runtime \<Rightarrow> js_error \<Rightarrow> http_response" where
  "error_response rt e =
     \<lparr>res_status = 500,
      res_body = JObj [ (''success'', JBool False),
                        (''error'', JStr (error_message e)),
                        (''timestamp'', JStr (iso_now rt)) ]\<rparr>"

text \<open>
  \<^verbatim>\<open>GET /api/ocean-weather\<close>. The query is the object \<^verbatim>\<open>req.query\<close>, given by its
  properties; \<^verbatim>\<open>res.json\<close> answers with status 200.
\<close>

definition route_ocean_weather_args :: "(string \<times> jsval) list \<Rightarrow> jsnum \<times> jsnum" where
  "route_ocean_weather_args query =
     (num_or (parseFloat (js_get (JObj query) ''lat'')) (Fin 37.5),
      num_or (parseFloat (js_get (JObj query) ''lon'')) (Fin (- 122.4)))"

definition route_ocean_weather :: "js_runtime \<Rightarrow> network \<Rightarrow> (string \<times> jsval) list \<Rightarrow> http_response" where
  "route_ocean_weather rt net query =
     (let (lat, lon) = route_ocean_weather_args query in
      case getOceanWeather rt net lat lon of
        Inr data \<Rightarrow>
          \<lparr>res_status = 200,
           res_body = JObj [ (''success'', JBool True),
                             (''data'', data),
                             (''timestamp'', JStr (iso_now rt)) ]\<rparr>
      | Inl e \<Rightarrow> error_response rt e)"

text \<open>
  \<^verbatim>\<open>GET /api/dashboard\<close>: the four fetches are joined by \<^verbatim>\<open>Promise.all\<close>; the
  handler goes on with the four values, or to its \<^verbatim>\<open>catch\<close> block when a fetch rejects.
\<close>

definition route_dashboard :: "js_runtime \<Rightarrow> network \<Rightarrow> http_response" where
  "route_dashboard rt net =
     (case getFishSpecies net (JNum (Fin 5)) of
        Inl e \<Rightarrow> error_response rt e
      | Inr fishSpecies \<Rightarrow>
     (case getBiodiversityObservations net [(''limit'', JNum (Fin 5))] of
        Inl e \<Rightarrow> error_response rt e
      | Inr biodiversity \<Rightarrow>
     (case getOceanDataMultipleLocations rt net of
        Inl e \<Rightarrow> error_response rt e
      | Inr oceanWeather \<Rightarrow>
     (case getSpeciesStats net of
        Inl e \<Rightarrow> error_response rt e
      | Inr stats \<Rightarrow>
          \<lparr>res_status = 200,
           res_body = JObj
             [ (''success'', JBool True),
               (''data'', JObj
                  [ (''fishSpecies'', fishSpecies),
                    (''biodiversity'', biodiversity),
                    (''oceanWeather'', oceanWeather),
                    (''stats'', stats) ]),
               (''sources'', JArr [JStr ''FishBase API'', JStr ''OBIS API'', JStr ''Open-Meteo Marine API'']),
               (''timestamp'', JStr (iso_now rt)) ]\<rparr>))))"

section \<open>Properties of the model\<close>

subsection \<open>Vocabulary\<close>

text \<open>The field names of an object; no fields for any other value.\<close>

fun fields :: "jsval \<Rightarrow> string set" where
  "fields (JObj kvs) = set (map fst kvs)"
| "fields v = {}"

text \<open>A payload that is neither absent nor empty.\<close>

fun non_empty :: "jsval \<Rightarrow> bool" where
  "non_empty JUndefined = False"
| "non_empty JNull = False"
| "non_empty (JArr xs) = (xs \<noteq> [])"
| "non_empty (JObj kvs) = (kvs \<noteq> [])"
| "non_empty (JStr s) = (s \<noteq> [])"
| "non_empty v = True"

text \<open>
  A failed call: the request rejects (no connection, a timeout, a status outside 2xx), or
  it resolves with an absent or empty body.
\<close>

definition call_fails :: "axios_result \<Rightarrow> bool" where
  "call_fails r =
     (case r of Rejected e \<Rightarrow> True
      | Resolved data \<Rightarrow> data = JUndefined \<or> data = JNull \<or> data = JStr [])"

text \<open>An operation returns (does not throw) a value with a property.\<close>

definition returns :: "js_error + jsval \<Rightarrow> (jsval \<Rightarrow> bool) \<Rightarrow> bool" where
  "returns r P = (case r of Inr v \<Rightarrow> P v | Inl e \<Rightarrow> False)"

subsection \<open>Mapping over an array\<close>

lemma call_fails_cases:
  "call_fails r \<Longrightarrow> (\<exists>e. r = Rejected e) \<or> (\<exists>d. r = Resolved d \<and> \<not> truthy d)"
  by (cases r) (auto simp: call_fails_def)

lemma map_result_all:
  assumes "\<And>x j y. f x j = Inr y \<Longrightarrow> P y"
  shows "map_result f i xs = Inr ys \<Longrightarrow> list_all P ys"
proof (induction xs arbitrary: i ys)
  case Nil
  then show ?case by simp
next
  case (Cons x xs)
  then show ?case using assms
    by (auto split: sum.splits)
qed

lemma map_result_length:
  "map_result f i xs = Inr ys \<Longrightarrow> length ys = length xs"
  by (induction xs arbitrary: i ys) (auto split: sum.splits)

lemma map_result_map:
  assumes "\<And>x j. x \<in> set xs \<Longrightarrow> f x j = Inr (g x)"
  shows "map_result f i xs = Inr (map g xs)"
  using assms by (induction xs arbitrary: i) auto

lemma map_result_total:
  assumes "\<And>x j. \<exists>y. f x j = Inr y"
  shows "\<exists>ys. map_result f i xs = Inr ys"
proof (induction xs arbitrary: i)
  case Nil
  then show ?case by simp
next
  case (Cons x xs)
  from assms obtain y where "f x i = Inr y" by blast
  moreover from Cons obtain ys where "map_result f (Suc i) xs = Inr ys" by blast
  ultimately show ?case by simp
qed

subsection \<open>The adapters when the upstream call fails\<close>

lemma getFishSpecies_fails:
  assumes "call_fails (net (species_request [(''limit'', if limit = JUndefined then JNum (Fin 10) else limit)]))"
  shows "getFishSpecies net limit = Inr getDefaultFishData"
  using call_fails_cases [OF assms]
  by (auto simp: getFishSpecies_def getFishSpecies_try_def Let_def)

lemma getFishByFamily_fails:
  assumes "call_fails (net (species_request [(''Family'', if family = JUndefined then JStr ''Salmonidae'' else family), (''limit'', JNum (Fin 5))]))"
  shows "getFishByFamily net family = Inr (JArr [])"
  using call_fails_cases [OF assms]
  by (auto simp: getFishByFamily_def getFishByFamily_try_def Let_def)

lemma getBiodiversityObservations_fails:
  assumes "\<And>req. call_fails (net req)"
  shows "getBiodiversityObservations net options = Inr getDefaultBiodiversityData"
  using call_fails_cases [OF assms [of "occurrence_request options"]]
  by (auto simp: getBiodiversityObservations_def getBiodiversityObservations_try_def)

lemma getSpeciesStats_fails:
  assumes "\<And>req. call_fails (net req)"
  shows "getSpeciesStats net = Inr getDefaultSpeciesStats"
  using call_fails_cases [OF assms [of statistics_request]]
  by (auto simp: getSpeciesStats_def getSpeciesStats_try_def)

lemma getObservationsByArea_fails:
  assumes "\<And>req. call_fails (net req)"
  shows "getObservationsByArea rt net a b c d = Inr (JArr [])"
  using call_fails_cases [OF assms [of "area_request rt a b c d"]]
  by (auto simp: getObservationsByArea_def getObservationsByArea_try_def)

lemma getOceanWeather_fails:
  assumes "call_fails (net (marine_request lat lon))"
  shows "getOceanWeather rt net lat lon = Inr (getDefaultOceanWeather rt lat lon)"
  using call_fails_cases [OF assms]
  by (auto simp: getOceanWeather_def getOceanWeather_try_def)

lemma getWaterTemperature_fails:
  assumes "call_fails (net (weather_request lat lon))"
  shows "getWaterTemperature rt net lat lon = Inr (getDefaultTemperatureData rt lat lon)"
  using call_fails_cases [OF assms]
  by (auto simp: getWaterTemperature_def getWaterTemperature_try_def)

text \<open>
  What the multi-location fetch makes of a location whose call fails: the location's name
  in front of the fallback snapshot for its coordinates.
\<close>

definition fallback_entry :: "js_runtime \<Rightarrow> place \<Rightarrow> jsval" where
  "fallback_entry rt loc =
     JObj ((''name'', JStr (place_name loc))
           # own_props (getDefaultOceanWeather rt (Fin (place_lat loc)) (Fin (place_lon loc))))"

lemma location_weather_fails:
  assumes "call_fails (net (marine_request (Fin (place_lat loc)) (Fin (place_lon loc))))"
  shows "location_weather rt net loc = Inr (fallback_entry rt loc)"
  using assms
  by (simp add: location_weather_def getOceanWeather_fails fallback_entry_def
      getDefaultOceanWeather_def obj_spread_def)

lemma getOceanDataMultipleLocations_fails:
  assumes "\<And>req. call_fails (net req)"
  shows "getOceanDataMultipleLocations rt net = Inr (JArr (map (fallback_entry rt) locations))"
  by (simp add: getOceanDataMultipleLocations_def locations_def location_weather_fails assms)

subsection \<open>Shapes: the field names of each payload\<close>

definition all_entries :: "(jsval \<Rightarrow> bool) \<Rightarrow> jsval \<Rightarrow> bool" where
  "all_entries P v = (case v of JArr xs \<Rightarrow> list_all P xs | _ \<Rightarrow> False)"

definition fish_record_shape :: "jsval \<Rightarrow> bool" where
  "fish_record_shape e =
     (fields e = {''id'', ''name'', ''genus'', ''family'', ''freshwater'', ''marine'', ''brackish'', ''icon''})"

definition family_record_shape :: "jsval \<Rightarrow> bool" where
  "family_record_shape e = (fields e = {''id'', ''name'', ''family'', ''icon''})"

definition observation_shape :: "jsval \<Rightarrow> bool" where
  "observation_shape e =
     (fields e = {''id'', ''species'', ''commonName'', ''latitude'', ''longitude'', ''date'',
                  ''datasetName'', ''icon''})"

definition biodiversity_shape :: "jsval \<Rightarrow> bool" where
  "biodiversity_shape v =
     (fields v = {''total'', ''observations'', ''source''} \<and>
      all_entries observation_shape (js_get v ''observations''))"

definition stats_shape :: "jsval \<Rightarrow> bool" where
  "stats_shape v = (fields v = {''totalSpecies'', ''totalObservations'', ''totalDatasets'', ''icon''})"

definition area_observation_shape :: "jsval \<Rightarrow> bool" where
  "area_observation_shape e = (fields e = {''species'', ''lat'', ''lon''})"

definition forecast_entry_shape :: "jsval \<Rightarrow> bool" where
  "forecast_entry_shape e = (fields e = {''day'', ''waveHeight''})"

definition weather_parts :: "jsval \<Rightarrow> bool" where
  "weather_parts v =
     (fields (js_get v ''location'') = {''latitude'', ''longitude'', ''name''} \<and>
      fields (js_get v ''current'') =
        {''waveHeight'', ''waveHeightUnit'', ''wavePeriod'', ''wavePeriodUnit'', ''windWaveHeight'',
         ''condition''} \<and>
      fields (js_get v ''daily'') = {''maxTemp'', ''minTemp'', ''tempUnit''} \<and>
      all_entries forecast_entry_shape (js_get v ''forecast''))"

definition weather_shape :: "jsval \<Rightarrow> bool" where
  "weather_shape v =
     (fields v = {''location'', ''current'', ''daily'', ''forecast'', ''source'', ''icon''} \<and>
      weather_parts v)"

definition named_weather_shape :: "jsval \<Rightarrow> bool" where
  "named_weather_shape v =
     (fields v = {''name'', ''location'', ''current'', ''daily'', ''forecast'', ''source'', ''icon''} \<and>
      weather_parts v)"

definition temperature_shape :: "jsval \<Rightarrow> bool" where
  "temperature_shape v =
     (fields v = {''location'', ''current'', ''daily'', ''source'', ''icon''} \<and>
      fields (js_get v ''location'') = {''latitude'', ''longitude'', ''name''} \<and>
      fields (js_get v ''current'') = {''temperature'', ''unit'', ''humidity'', ''condition''} \<and>
      fields (js_get v ''daily'') = {''maxTemp'', ''minTemp'', ''precipitation''})"

lemma js_map_all:
  assumes "\<And>x j y. f x j = Inr y \<Longrightarrow> P y" and "js_map f v = Inr w"
  shows "all_entries P w"
proof (cases v)
  case (JArr xs)
  with assms(2) obtain ys where ys: "map_result f 0 xs = Inr ys" and w: "w = JArr ys"
    by (auto simp: js_map_def split: sum.splits)
  from map_result_all [of f P, OF assms(1) ys] w show ?thesis
    by (simp add: all_entries_def)
qed (use assms(2) in \<open>simp_all add: js_map_def\<close>)

lemma fish_callback_shape: "fish_callback x j = Inr y \<Longrightarrow> fish_record_shape y"
  by (auto simp: fish_callback_def format_fish_def fish_record_shape_def split: sum.splits)

lemma default_fish_shape: "all_entries fish_record_shape getDefaultFishData"
  by (auto simp: getDefaultFishData_def all_entries_def fish_record_shape_def)

lemma getFishSpecies_shape: "returns (getFishSpecies net limit) (all_entries fish_record_shape)"
proof (cases "getFishSpecies_try net (if limit = JUndefined then JNum (Fin 10) else limit)")
  case (Inl e)
  then show ?thesis
    by (simp add: getFishSpecies_def returns_def default_fish_shape)
next
  case (Inr v)
  then have "all_entries fish_record_shape v"
    by (auto simp: getFishSpecies_try_def default_fish_shape
        split: axios_result.splits if_splits
        intro: js_map_all [of fish_callback fish_record_shape, OF fish_callback_shape])
  with Inr show ?thesis
    by (simp add: getFishSpecies_def returns_def)
qed


lemma family_callback_shape: "family_callback fam x j = Inr y \<Longrightarrow> family_record_shape y"
  by (auto simp: family_callback_def format_family_fish_def family_record_shape_def split: sum.splits)

lemma empty_entries: "all_entries P (JArr [])"
  by (simp add: all_entries_def)

lemma getFishByFamily_shape: "returns (getFishByFamily net family) (all_entries family_record_shape)"
proof (cases "getFishByFamily_try net (if family = JUndefined then JStr ''Salmonidae'' else family)")
  case (Inl e)
  then show ?thesis
    by (simp add: getFishByFamily_def returns_def empty_entries)
next
  case (Inr v)
  then have "all_entries family_record_shape v"
    by (auto simp: getFishByFamily_try_def empty_entries
        split: axios_result.splits if_splits
        intro: js_map_all [of "family_callback fam" family_record_shape for fam, OF family_callback_shape])
  with Inr show ?thesis
    by (simp add: getFishByFamily_def returns_def)
qed

lemma observation_callback_shape: "observation_callback x j = Inr y \<Longrightarrow> observation_shape y"
  by (auto simp: observation_callback_def format_observation_def observation_shape_def split: sum.splits)

lemma default_biodiversity_shape: "biodiversity_shape getDefaultBiodiversityData"
  by (auto simp: getDefaultBiodiversityData_def biodiversity_shape_def all_entries_def observation_shape_def)

lemma getBiodiversityObservations_try_form:
  assumes "getBiodiversityObservations_try net options = Inr v"
  shows "v = getDefaultBiodiversityData \<or>
         (\<exists>t obs. v = JObj [(''total'', t), (''observations'', obs), (''source'', JStr ''OBIS API'')] \<and>
            all_entries observation_shape obs)"
proof -
  have obs: "all_entries observation_shape w" if "js_map observation_callback r = Inr w" for r w
    using js_map_all [of observation_callback observation_shape, OF observation_callback_shape that] .
  from assms show ?thesis
    by (auto simp: getBiodiversityObservations_try_def Let_def obs
        split: axios_result.splits if_splits sum.splits)
qed

lemma getBiodiversityObservations_shape:
  "returns (getBiodiversityObservations net options) biodiversity_shape"
proof (cases "getBiodiversityObservations_try net options")
  case (Inl e)
  then show ?thesis
    by (simp add: getBiodiversityObservations_def returns_def default_biodiversity_shape)
next
  case (Inr v)
  from getBiodiversityObservations_try_form [OF Inr] have "biodiversity_shape v"
  proof
    assume "v = getDefaultBiodiversityData"
    then show ?thesis by (simp add: default_biodiversity_shape)
  next
    assume "\<exists>t obs. v = JObj [(''total'', t), (''observations'', obs), (''source'', JStr ''OBIS API'')] \<and>
            all_entries observation_shape obs"
    then show ?thesis by (auto simp: biodiversity_shape_def)
  qed
  with Inr show ?thesis
    by (simp add: getBiodiversityObservations_def returns_def)
qed

lemma default_stats_shape: "stats_shape getDefaultSpeciesStats"
  by (auto simp: getDefaultSpeciesStats_def stats_shape_def)

lemma getSpeciesStats_try_form:
  assumes "getSpeciesStats_try net = Inr v"
  shows "v = getDefaultSpeciesStats \<or>
         (\<exists>a b c. v = JObj [(''totalSpecies'', a), (''totalObservations'', b), (''totalDatasets'', c),
                            (''icon'', JStr chart_icon)])"
  using assms
  by (auto simp: getSpeciesStats_try_def split: axios_result.splits if_splits)

lemma getSpeciesStats_shape: "returns (getSpeciesStats net) stats_shape"
proof (cases "getSpeciesStats_try net")
  case (Inl e)
  then show ?thesis
    by (simp add: getSpeciesStats_def returns_def default_stats_shape)
next
  case (Inr v)
  from getSpeciesStats_try_form [OF Inr] have "stats_shape v"
  proof
    assume "v = getDefaultSpeciesStats"
    then show ?thesis by (simp add: default_stats_shape)
  next
    assume "\<exists>a b c. v = JObj [(''totalSpecies'', a), (''totalObservations'', b), (''totalDatasets'', c),
                            (''icon'', JStr chart_icon)]"
    then show ?thesis by (auto simp: stats_shape_def)
  qed
  with Inr show ?thesis
    by (simp add: getSpeciesStats_def returns_def)
qed

lemma area_callback_shape: "area_callback x j = Inr y \<Longrightarrow> area_observation_shape y"
  by (auto simp: area_callback_def format_area_observation_def area_observation_shape_def split: sum.splits)

lemma getObservationsByArea_shape:
  "returns (getObservationsByArea rt net a b c d) (all_entries area_observation_shape)"
proof (cases "getObservationsByArea_try rt net a b c d")
  case (Inl e)
  then show ?thesis
    by (simp add: getObservationsByArea_def returns_def empty_entries)
next
  case (Inr v)
  then have "all_entries area_observation_shape v"
    by (auto simp: getObservationsByArea_try_def empty_entries
        split: axios_result.splits if_splits
        intro: js_map_all [of area_callback area_observation_shape, OF area_callback_shape])
  with Inr show ?thesis
    by (simp add: getObservationsByArea_def returns_def)
qed

text \<open>The two ways \<^verbatim>\<open>getOceanWeather\<close> returns: the fallback, or the live snapshot.\<close>

lemma getOceanWeather_cases:
  "getOceanWeather rt net lat lon = Inr (getDefaultOceanWeather rt lat lon) \<or>
   (\<exists>data v. net (marine_request lat lon) = Resolved data \<and> truthy data \<and>
       live_ocean_weather rt lat lon data = Inr v \<and> getOceanWeather rt net lat lon = Inr v)"
  by (auto simp: getOceanWeather_def getOceanWeather_try_def split: axios_result.splits sum.splits)

lemma forecast_callback_shape: "forecast_callback rt x j = Inr y \<Longrightarrow> forecast_entry_shape y"
  by (auto simp: forecast_callback_def forecast_entry_shape_def)

text \<open>
  A weather snapshot by its parts, and the entry the multi-location fetch makes of it.
\<close>

definition snapshot :: "jsval \<Rightarrow> jsval \<Rightarrow> jsval \<Rightarrow> jsval \<Rightarrow> jsval \<Rightarrow> jsval" where
  "snapshot loc cur dly fc src =
     JObj [(''location'', loc), (''current'', cur), (''daily'', dly), (''forecast'', fc),
           (''source'', src), (''icon'', JStr ocean_icon)]"

definition named_snapshot :: "jsval \<Rightarrow> jsval \<Rightarrow> jsval \<Rightarrow> jsval \<Rightarrow> jsval \<Rightarrow> jsval \<Rightarrow> jsval" where
  "named_snapshot nm loc cur dly fc src =
     JObj [(''name'', nm), (''location'', loc), (''current'', cur), (''daily'', dly),
           (''forecast'', fc), (''source'', src), (''icon'', JStr ocean_icon)]"

definition snapshot_parts :: "jsval \<Rightarrow> jsval \<Rightarrow> jsval \<Rightarrow> jsval \<Rightarrow> bool" where
  "snapshot_parts loc cur dly fc =
     (fields loc = {''latitude'', ''longitude'', ''name''} \<and>
      fields cur = {''waveHeight'', ''waveHeightUnit'', ''wavePeriod'', ''wavePeriodUnit'',
                    ''windWaveHeight'', ''condition''} \<and>
      fields dly = {''maxTemp'', ''minTemp'', ''tempUnit''} \<and>
      all_entries forecast_entry_shape fc)"

lemma snapshot_shape: "snapshot_parts loc cur dly fc \<Longrightarrow> weather_shape (snapshot loc cur dly fc src)"
  by (simp add: snapshot_parts_def snapshot_def weather_shape_def weather_parts_def)

lemma named_snapshot_shape:
  "snapshot_parts loc cur dly fc \<Longrightarrow> named_weather_shape (named_snapshot nm loc cur dly fc src)"
  by (simp add: snapshot_parts_def named_snapshot_def named_weather_shape_def weather_parts_def)

lemma spread_snapshot:
  "JObj (obj_spread [(''name'', nm)] (own_props (snapshot loc cur dly fc src))) =
     named_snapshot nm loc cur dly fc src"
  by (simp add: snapshot_def named_snapshot_def obj_spread_def)

lemma live_forecast_shape:
  assumes "live_forecast rt daily = Inr fc"
  shows "all_entries forecast_entry_shape fc"
proof (cases "truthy (js_get daily ''wave_height_max'')")
  case False
  with assms have "fc = JArr []" by (simp add: live_forecast_def)
  then show ?thesis by (simp add: all_entries_def)
next
  case True
  with assms obtain days where "js_map (forecast_callback rt) days = Inr fc"
    by (auto simp: live_forecast_def split: sum.splits)
  from js_map_all [of "forecast_callback rt" forecast_entry_shape, OF forecast_callback_shape this]
  show ?thesis .
qed

lemma live_current_fields:
  "fields (live_current rt hourly) =
     {''waveHeight'', ''waveHeightUnit'', ''wavePeriod'', ''wavePeriodUnit'', ''windWaveHeight'',
      ''condition''}"
  by (simp add: live_current_def Let_def)

lemma live_daily_fields:
  "fields (live_daily rt daily) = {''maxTemp'', ''minTemp'', ''tempUnit''}"
  by (simp add: live_daily_def Let_def)

lemma location_fields:
  "fields (location_of rt lat lon) = {''latitude'', ''longitude'', ''name''}"
  by (simp add: location_of_def)

lemma live_ocean_weather_form:
  assumes "live_ocean_weather rt lat lon data = Inr v"
  shows "\<exists>cur dly fc src.
     v = snapshot (location_of rt lat lon) cur dly fc src \<and>
     snapshot_parts (location_of rt lat lon) cur dly fc"
proof (cases "live_forecast rt (js_or (js_get data ''daily'') (JObj []))")
  case (Inl e)
  with assms show ?thesis by (simp add: live_ocean_weather_def Let_def)
next
  case (Inr fc)
  with assms have v: "v = snapshot (location_of rt lat lon)
       (live_current rt (js_or (js_get data ''hourly'') (JObj [])))
       (live_daily rt (js_or (js_get data ''daily'') (JObj []))) fc (JStr ''Open-Meteo Marine API'')"
    by (simp add: live_ocean_weather_def Let_def snapshot_def)
  have "snapshot_parts (location_of rt lat lon)
       (live_current rt (js_or (js_get data ''hourly'') (JObj [])))
       (live_daily rt (js_or (js_get data ''daily'') (JObj []))) fc"
    by (simp add: snapshot_parts_def location_fields live_current_fields live_daily_fields
        live_forecast_shape [OF Inr])
  with v show ?thesis by blast
qed

lemma default_ocean_weather_form:
  "\<exists>cur dly fc src.
     getDefaultOceanWeather rt lat lon = snapshot (location_of rt lat lon) cur dly fc src \<and>
     snapshot_parts (location_of rt lat lon) cur dly fc"
proof -
  let ?cur = "JObj
        [ (''waveHeight'', JStr ''1.5''),
          (''waveHeightUnit'', JStr ''meters''),
          (''wavePeriod'', JStr ''8.2''),
          (''wavePeriodUnit'', JStr ''seconds''),
          (''windWaveHeight'', JStr ''0.9''),
          (''condition'', JStr ''Light'') ]"
  let ?dly = "JObj
        [ (''maxTemp'', JStr ''15.2''),
          (''minTemp'', JStr ''12.8''),
          (''tempUnit'', JStr temp_unit) ]"
  let ?fc = "JArr
        [ JObj [(''day'', JNum (Fin 0)), (''waveHeight'', JStr ''1.5'')],
          JObj [(''day'', JNum (Fin 1)), (''waveHeight'', JStr ''1.8'')],
          JObj [(''day'', JNum (Fin 2)), (''waveHeight'', JStr ''2.1'')],
          JObj [(''day'', JNum (Fin 3)), (''waveHeight'', JStr ''1.9'')],
          JObj [(''day'', JNum (Fin 4)), (''waveHeight'', JStr ''1.6'')],
          JObj [(''day'', JNum (Fin 5)), (''waveHeight'', JStr ''1.4'')],
          JObj [(''day'', JNum (Fin 6)), (''waveHeight'', JStr ''1.7'')] ]"
  have 1: "getDefaultOceanWeather rt lat lon =
      snapshot (location_of rt lat lon) ?cur ?dly ?fc (JStr ''Open-Meteo Marine API (Fallback)'')"
    by (simp add: getDefaultOceanWeather_def snapshot_def)
  have 2: "snapshot_parts (location_of rt lat lon) ?cur ?dly ?fc"
    by (simp add: snapshot_parts_def location_fields all_entries_def forecast_entry_shape_def)
  show ?thesis
    by (rule exI [of _ ?cur], rule exI [of _ ?dly], rule exI [of _ ?fc],
        rule exI [of _ "JStr ''Open-Meteo Marine API (Fallback)''"], rule conjI [OF 1 2])
qed

lemma getOceanWeather_form:
  "\<exists>cur dly fc src.
     getOceanWeather rt net lat lon = Inr (snapshot (location_of rt lat lon) cur dly fc src) \<and>
     snapshot_parts (location_of rt lat lon) cur dly fc"
  using getOceanWeather_cases [of rt net lat lon]
proof
  assume "getOceanWeather rt net lat lon = Inr (getDefaultOceanWeather rt lat lon)"
  with default_ocean_weather_form [of rt lat lon] show ?thesis by auto
next
  assume "\<exists>data v. net (marine_request lat lon) = Resolved data \<and> truthy data \<and>
       live_ocean_weather rt lat lon data = Inr v \<and> getOceanWeather rt net lat lon = Inr v"
  then obtain data v where live: "live_ocean_weather rt lat lon data = Inr v"
    and res: "getOceanWeather rt net lat lon = Inr v" by blast
  from live_ocean_weather_form [OF live] res show ?thesis by auto
qed

lemma default_weather_shape: "weather_shape (getDefaultOceanWeather rt lat lon)"
  using default_ocean_weather_form [of rt lat lon] snapshot_shape by auto

lemma getOceanWeather_shape: "returns (getOceanWeather rt net lat lon) weather_shape"
  using getOceanWeather_form [of rt net lat lon] snapshot_shape
  by (auto simp: returns_def)

lemma default_temperature_shape: "temperature_shape (getDefaultTemperatureData rt lat lon)"
  by (simp add: getDefaultTemperatureData_def temperature_shape_def location_of_def)

lemma live_temperature_shape: "temperature_shape (live_water_temperature rt lat lon data)"
  by (simp add: live_water_temperature_def Let_def temperature_shape_def location_of_def)

lemma getWaterTemperature_shape: "returns (getWaterTemperature rt net lat lon) temperature_shape"
proof (cases "getWaterTemperature_try rt net lat lon")
  case (Inl e)
  then show ?thesis
    by (simp add: getWaterTemperature_def returns_def default_temperature_shape)
next
  case (Inr v)
  then have "v = getDefaultTemperatureData rt lat lon \<or>
             (\<exists>data. v = live_water_temperature rt lat lon data)"
    by (auto simp: getWaterTemperature_try_def split: axios_result.splits if_splits)
  then have "temperature_shape v"
    using default_temperature_shape live_temperature_shape by auto
  with Inr show ?thesis
    by (simp add: getWaterTemperature_def returns_def)
qed

lemma location_weather_shape: "returns (location_weather rt net loc) named_weather_shape"
proof -
  let ?loc = "location_of rt (Fin (place_lat loc)) (Fin (place_lon loc))"
  from getOceanWeather_form [of rt net "Fin (place_lat loc)" "Fin (place_lon loc)"]
  obtain cur dly fc src where
    w: "getOceanWeather rt net (Fin (place_lat loc)) (Fin (place_lon loc)) =
         Inr (snapshot ?loc cur dly fc src)"
    and sh: "snapshot_parts ?loc cur dly fc"
    by blast
  have "location_weather rt net loc =
       Inr (named_snapshot (JStr (place_name loc)) ?loc cur dly fc src)"
    by (simp add: location_weather_def w spread_snapshot)
  with named_snapshot_shape [OF sh] show ?thesis
    by (simp add: returns_def)
qed

lemma promise_all_map:
  assumes "\<And>x. returns (f x) P"
  shows "\<exists>ys. promise_all (map f xs) = Inr ys \<and> length ys = length xs \<and> list_all P ys"
proof (induction xs)
  case Nil
  then show ?case by simp
next
  case (Cons x xs)
  from assms [of x] obtain y where "f x = Inr y" "P y"
    by (auto simp: returns_def split: sum.splits)
  with Cons show ?case by auto
qed

lemma getOceanDataMultipleLocations_form:
  "\<exists>es. getOceanDataMultipleLocations rt net = Inr (JArr es) \<and> length es = 3 \<and>
     list_all named_weather_shape es"
proof -
  from promise_all_map [of "location_weather rt net" named_weather_shape locations,
      OF location_weather_shape]
  obtain ys where "promise_all (map (location_weather rt net) locations) = Inr ys"
    and "length ys = length locations" and "list_all named_weather_shape ys" by blast
  then show ?thesis
    by (simp add: getOceanDataMultipleLocations_def locations_def)
qed

subsection \<open>Entries of the multi-location result\<close>

text \<open>An entry has a \<^verbatim>\<open>name\<close> field and a \<^verbatim>\<open>waveHeight\<close> field in its \<^verbatim>\<open>current\<close> object.\<close>

definition multi_entry_ok :: "jsval \<Rightarrow> bool" where
  "multi_entry_ok e = (''name'' \<in> fields e \<and> ''waveHeight'' \<in> fields (js_get e ''current''))"

lemma named_weather_entry_ok: "named_weather_shape e \<Longrightarrow> multi_entry_ok e"
  by (simp add: named_weather_shape_def weather_parts_def multi_entry_ok_def)

lemma list_all_mono: "list_all P xs \<Longrightarrow> (\<And>x. P x \<Longrightarrow> Q x) \<Longrightarrow> list_all Q xs"
  by (induction xs) auto

lemma locations_not_empty: "locations \<noteq> []"
  by (simp add: locations_def)

lemma non_empty_fallbacks:
  "non_empty getDefaultFishData"
  "non_empty getDefaultBiodiversityData"
  "non_empty (js_get getDefaultBiodiversityData ''observations'')"
  "non_empty getDefaultSpeciesStats"
  "non_empty (getDefaultOceanWeather rt lat lon)"
  "non_empty (getDefaultTemperatureData rt lat lon)"
  "non_empty (JArr (map (fallback_entry rt) locations))"
  by (simp_all add: getDefaultFishData_def getDefaultBiodiversityData_def getDefaultSpeciesStats_def
      getDefaultOceanWeather_def getDefaultTemperatureData_def locations_def)

lemma multi_fallback_shape:
  "all_entries named_weather_shape (JArr (map (fallback_entry rt) locations))"
proof -
  let ?net = "\<lambda>req::request. Rejected (AxiosError [])"
  have h: "call_fails (?net req)" for req
    by (simp add: call_fails_def)
  from getOceanDataMultipleLocations_form [of rt ?net] obtain es
    where "getOceanDataMultipleLocations rt ?net = Inr (JArr es)" "list_all named_weather_shape es"
    by blast
  with getOceanDataMultipleLocations_fails [of ?net rt, OF h] show ?thesis
    by (simp add: all_entries_def)
qed

text \<open>
  The \<^verbatim>\<open>catch\<close> block of \<^verbatim>\<open>getOceanDataMultipleLocations\<close> is never entered:
  \<^verbatim>\<open>getOceanWeather\<close> absorbs every failure itself, so \<^verbatim>\<open>Promise.all\<close> does not
  reject, and the array \<^verbatim>\<open>getDefaultMultiLocationData\<close> (whose entries have no
  \<^verbatim>\<open>daily\<close>, \<^verbatim>\<open>forecast\<close> and \<^verbatim>\<open>source\<close>) is never the result.
\<close>

lemma multi_location_catch_unreachable:
  "getOceanDataMultipleLocations rt net \<noteq> Inr getDefaultMultiLocationData"
proof
  assume eq: "getOceanDataMultipleLocations rt net = Inr getDefaultMultiLocationData"
  from getOceanDataMultipleLocations_form [of rt net] obtain es
    where res: "getOceanDataMultipleLocations rt net = Inr (JArr es)"
      and es: "list_all named_weather_shape es"
    by blast
  from eq res have g: "getDefaultMultiLocationData = JArr es" by simp
  from es have "all_entries named_weather_shape (JArr es)"
    by (simp add: all_entries_def)
  then have "all_entries named_weather_shape getDefaultMultiLocationData"
    by (simp only: g)
  then have "''daily'' \<in> fields (multi_entry ''San Francisco Bay'' 37.5 (- 122.4) ''1.5'' ''8.2'' ''0.9'' ''Light'')"
    by (simp add: all_entries_def getDefaultMultiLocationData_def named_weather_shape_def)
  then show False
    by (simp add: multi_entry_def)
qed

subsection \<open>The live path of the species fetch\<close>

lemma fish_callback_format: "\<not> nullish x \<Longrightarrow> fish_callback x j = Inr (format_fish x)"
  by (simp add: fish_callback_def get_prop_def)

lemma getFishSpecies_live:
  assumes net: "net (species_request [(''limit'', if limit = JUndefined then JNum (Fin 10) else limit)])
                  = Resolved (JArr recs)"
    and ne: "recs \<noteq> []"
    and nn: "\<And>r. r \<in> set recs \<Longrightarrow> \<not> nullish r"
  shows "getFishSpecies net limit = Inr (JArr (map format_fish recs))"
proof -
  have "map_result fish_callback 0 recs = Inr (map format_fish recs)"
    by (rule map_result_map) (simp add: fish_callback_format nn)
  then have "js_map fish_callback (JArr recs) = Inr (JArr (map format_fish recs))"
    by (simp add: js_map_def)
  moreover from ne have "js_get (JArr recs) ''length'' \<noteq> JNum (Fin 0)"
    by simp
  ultimately have "getFishSpecies_try net (if limit = JUndefined then JNum (Fin 10) else limit)
      = Inr (JArr (map format_fish recs))"
    using net by (simp add: getFishSpecies_try_def)
  then show ?thesis
    by (simp add: getFishSpecies_def)
qed

lemma format_fish_missing:
  "js_get r ''Genus'' = JUndefined \<Longrightarrow> js_get (format_fish r) ''genus'' = JStr ''Unknown''"
  "js_get r ''Marine'' = JUndefined \<Longrightarrow> js_get (format_fish r) ''marine'' = JNum (Fin 1)"
  by (simp_all add: format_fish_def js_or_def)

lemma format_fish_zero:
  "js_get r ''Marine'' = JNum (Fin 0) \<Longrightarrow> js_get (format_fish r) ''marine'' = JNum (Fin 1)"
  "js_get r ''Freshwater'' = JNum (Fin 0) \<Longrightarrow> js_get (format_fish r) ''freshwater'' = JNum (Fin 0)"
  "js_get r ''Brackish'' = JNum (Fin 0) \<Longrightarrow> js_get (format_fish r) ''brackish'' = JNum (Fin 0)"
  by (simp_all add: format_fish_def js_or_def)

subsection \<open>Numbers printed with a fixed number of decimals\<close>

text \<open>
  A text of the form the claims call fixed-decimal: an optional minus sign, one or more
  digits, a point, and exactly \<open>d\<close> digits.
\<close>

definition is_fixed_decimals :: "nat \<Rightarrow> string \<Rightarrow> bool" where
  "is_fixed_decimals d s =
     (let body = (case s of c # r \<Rightarrow> if c = CHR ''-'' then r else s | [] \<Rightarrow> s);
          ip = takeWhile is_digit body;
          rest = dropWhile is_digit body
      in ip \<noteq> [] \<and>
         (case rest of c # fp \<Rightarrow> c = CHR ''.'' \<and> length fp = d \<and> list_all is_digit fp | [] \<Rightarrow> False))"

lemma digit_char_is_digit: "k < 10 \<Longrightarrow> is_digit (digit_chars ! k)"
proof -
  assume "k < 10"
  then have "k < length digit_chars" by (simp add: digit_chars_def)
  then show ?thesis unfolding is_digit_def by (rule nth_mem)
qed

lemma digits_of_digits: "list_all is_digit (digits_of n)"
proof (induction n rule: digits_of.induct)
  case (1 n)
  show ?case
  proof (cases "n < 10")
    case True
    then show ?thesis
      by (simp add: digits_of.simps [of n] digit_char_is_digit)
  next
    case False
    with 1 show ?thesis
      by (simp add: digits_of.simps [of n] digit_char_is_digit)
  qed
qed

lemma digits_of_not_empty: "digits_of n \<noteq> []"
  by (simp add: digits_of.simps [of n])

lemma not_digit_marks: "\<not> is_digit (CHR ''.'')" "\<not> is_digit (CHR ''-'')"
  by (simp_all add: is_digit_def digit_chars_def)

lemma is_fixed_decimals_unsigned:
  assumes "ip \<noteq> []" "list_all is_digit ip" "length fp = d" "list_all is_digit fp"
  shows "is_fixed_decimals d (ip @ CHR ''.'' # fp)"
proof -
  from assms(1) obtain c cs where ip: "ip = c # cs" by (cases ip) auto
  with assms(2) have c: "is_digit c" by simp
  then have "c \<noteq> CHR ''-''" using not_digit_marks by auto
  moreover from assms(2) have "takeWhile is_digit (ip @ CHR ''.'' # fp) = ip"
    "dropWhile is_digit (ip @ CHR ''.'' # fp) = CHR ''.'' # fp"
    by (simp_all add: takeWhile_append2 dropWhile_append2 list_all_iff not_digit_marks)
  ultimately show ?thesis
    using assms ip by (simp add: is_fixed_decimals_def)
qed

lemma is_fixed_decimals_signed:
  assumes "ip \<noteq> []" "list_all is_digit ip" "length fp = d" "list_all is_digit fp"
  shows "is_fixed_decimals d (CHR ''-'' # ip @ CHR ''.'' # fp)"
proof -
  from assms(2) have "takeWhile is_digit (ip @ CHR ''.'' # fp) = ip"
    "dropWhile is_digit (ip @ CHR ''.'' # fp) = CHR ''.'' # fp"
    by (simp_all add: takeWhile_append2 dropWhile_append2 list_all_iff not_digit_marks)
  then show ?thesis
    using assms by (simp add: is_fixed_decimals_def)
qed

lemma fixed_digits_form:
  assumes "0 < d"
  shows "\<exists>ip fp. fixed_digits d n = ip @ CHR ''.'' # fp \<and> ip \<noteq> [] \<and> list_all is_digit ip \<and>
           length fp = d \<and> list_all is_digit fp"
proof -
  define m where "m = replicate (d + 1 - length (digits_of n)) (CHR ''0'') @ digits_of n"
  have zero: "is_digit (CHR ''0'')"
    by (simp add: is_digit_def digit_chars_def)
  have all: "list_all is_digit m"
    using digits_of_digits [of n] zero by (auto simp: m_def list_all_iff)
  have len: "d < length m"
    by (simp add: m_def)
  have eq: "fixed_digits d n = take (length m - d) m @ CHR ''.'' # drop (length m - d) m"
    using assms by (simp add: fixed_digits_def Let_def m_def)
  have "take (length m - d) m \<noteq> []"
    using len by (cases m) auto
  moreover have "list_all is_digit (take (length m - d) m)" "list_all is_digit (drop (length m - d) m)"
    using all by (auto simp: list_all_iff dest: in_set_takeD in_set_dropD)
  moreover have "length (drop (length m - d) m) = d"
    using len by simp
  ultimately show ?thesis using eq by blast
qed

lemma to_fixed_format:
  assumes "\<bar>q\<bar> < 10 ^ 21" and "0 < d"
  shows "is_fixed_decimals d (to_fixed rt d (Fin q))"
proof -
  from fixed_digits_form [OF assms(2), of "nat \<lfloor>\<bar>q\<bar> * 10 ^ d + 1 / 2\<rfloor>"]
  obtain ip fp where f: "fixed_digits d (nat \<lfloor>\<bar>q\<bar> * 10 ^ d + 1 / 2\<rfloor>) = ip @ CHR ''.'' # fp"
    and p: "ip \<noteq> []" "list_all is_digit ip" "length fp = d" "list_all is_digit fp"
    by blast
  show ?thesis
  proof (cases "q < 0")
    case True
    with assms(1) f have "to_fixed rt d (Fin q) = CHR ''-'' # ip @ CHR ''.'' # fp"
      by (simp add: to_fixed_def)
    with is_fixed_decimals_signed [OF p] show ?thesis by simp
  next
    case False
    with assms(1) f have "to_fixed rt d (Fin q) = ip @ CHR ''.'' # fp"
      by (simp add: to_fixed_def)
    with is_fixed_decimals_unsigned [OF p] show ?thesis by simp
  qed
qed

lemma to_fixed_zero: "to_fixed rt 2 (Fin 0) = ''0.00''"
  by (simp add: to_fixed_def fixed_digits_def digits_of.simps digit_chars_def)

subsection \<open>How the live weather snapshot renders the upstream numbers\<close>

text \<open>
  The first entry of a series of the response, as \<^verbatim>\<open>getOceanWeather\<close> reads it
  (\<^verbatim>\<open>hourly.wave_height?.[0]\<close> with \<^verbatim>\<open>hourly = data.hourly || {}\<close>), and the relation
  between such an upstream value \<open>u\<close> and the field \<open>f\<close> of the snapshot made from it: a
  finite number below \<open>10^21\<close> in magnitude is printed with two decimals (waves) or one
  decimal (temperatures, zero apart), an absent value becomes \<^verbatim>\<open>"0.00"\<close> (waves) or
  \<^verbatim>\<open>"N/A"\<close> (temperatures).
\<close>

definition upstream_hourly :: "jsval \<Rightarrow> string \<Rightarrow> jsval" where
  "upstream_hourly data key = first_of (js_or (js_get data ''hourly'') (JObj [])) key"

definition upstream_daily :: "jsval \<Rightarrow> string \<Rightarrow> jsval" where
  "upstream_daily data key = first_of (js_or (js_get data ''daily'') (JObj [])) key"

definition forecast_rendering :: "jsval \<Rightarrow> jsval \<Rightarrow> bool" where
  "forecast_rendering u f =
     (\<forall>q. u = JNum (Fin q) \<and> \<bar>q\<bar> < 10 ^ 21 \<longrightarrow> (\<exists>s. f = JStr s \<and> is_fixed_decimals 2 s))"

definition wave_rendering :: "jsval \<Rightarrow> jsval \<Rightarrow> bool" where
  "wave_rendering u f =
     ((\<forall>q. u = JNum (Fin q) \<and> \<bar>q\<bar> < 10 ^ 21 \<longrightarrow> (\<exists>s. f = JStr s \<and> is_fixed_decimals 2 s)) \<and>
      (nullish u \<longrightarrow> f = JStr ''0.00''))"

definition temp_rendering :: "jsval \<Rightarrow> jsval \<Rightarrow> bool" where
  "temp_rendering u f =
     ((\<forall>q. u = JNum (Fin q) \<and> q \<noteq> 0 \<and> \<bar>q\<bar> < 10 ^ 21 \<longrightarrow> (\<exists>s. f = JStr s \<and> is_fixed_decimals 1 s)) \<and>
      (nullish u \<longrightarrow> f = JStr ''N/A''))"

lemma forecast_rendering_to_fixed: "forecast_rendering u (JStr (to_fixed rt 2 (parseFloat u)))"
  by (auto simp: forecast_rendering_def to_fixed_format)

lemma wave_rendering_to_fixed:
  "wave_rendering u (JStr (to_fixed rt 2 (parseFloat (js_or u (JNum (Fin 0))))))"
proof -
  have "is_fixed_decimals 2 (to_fixed rt 2 (parseFloat (js_or (JNum (Fin q)) (JNum (Fin 0)))))"
    if "\<bar>q\<bar> < 10 ^ 21" for q
    using that by (cases "q = 0") (simp_all add: js_or_def to_fixed_format)
  moreover have "to_fixed rt 2 (parseFloat (js_or u (JNum (Fin 0)))) = ''0.00''" if "nullish u"
    using that by (auto simp: nullish_def js_or_def to_fixed_zero)
  ultimately show ?thesis
    by (auto simp: wave_rendering_def)
qed

lemma temp_rendering_format: "temp_rendering u (format_temp rt (js_or u (JStr ''N/A'')))"
proof -
  have "\<exists>s. format_temp rt (js_or (JNum (Fin q)) (JStr ''N/A'')) = JStr s \<and> is_fixed_decimals 1 s"
    if "\<bar>q\<bar> < 10 ^ 21" "q \<noteq> 0" for q
    using that by (simp add: js_or_def format_temp_def to_fixed_format)
  moreover have "format_temp rt (js_or u (JStr ''N/A'')) = JStr ''N/A''" if "nullish u"
    using that by (auto simp: nullish_def js_or_def format_temp_def)
  ultimately show ?thesis
    by (auto simp: temp_rendering_def)
qed

lemma live_current_rendering:
  "wave_rendering (first_of hourly ''wave_height'') (js_get (live_current rt hourly) ''waveHeight'')"
  "wave_rendering (first_of hourly ''wave_period'') (js_get (live_current rt hourly) ''wavePeriod'')"
  "wave_rendering (first_of hourly ''wind_wave_height'') (js_get (live_current rt hourly) ''windWaveHeight'')"
  by (simp_all add: live_current_def Let_def wave_rendering_to_fixed)

lemma live_daily_rendering:
  "temp_rendering (first_of daily ''temperature_2m_max'') (js_get (live_daily rt daily) ''maxTemp'')"
  "temp_rendering (first_of daily ''temperature_2m_min'') (js_get (live_daily rt daily) ''minTemp'')"
  by (simp_all add: live_daily_def Let_def temp_rendering_format)

lemma map_result_nth:
  "map_result f i xs = Inr ys \<Longrightarrow> j < length xs \<Longrightarrow> f (xs ! j) (i + j) = Inr (ys ! j)"
proof (induction xs arbitrary: i ys j)
  case Nil
  then show ?case by simp
next
  case (Cons x xs)
  from Cons.prems(1) obtain y ys' where y: "f x i = Inr y"
    and ys': "map_result f (Suc i) xs = Inr ys'" and ys: "ys = y # ys'"
    by (auto split: sum.splits)
  show ?case
  proof (cases j)
    case 0
    with y ys show ?thesis by simp
  next
    case (Suc k)
    with Cons.prems(2) have "k < length xs" by simp
    from Cons.IH [OF ys' this] Suc ys show ?thesis by simp
  qed
qed

lemma live_forecast_rendering:
  assumes "js_get daily ''wave_height_max'' = JArr days"
  shows "\<exists>fc. live_forecast rt daily = Inr (JArr fc) \<and> length fc = min 7 (length days) \<and>
           (\<forall>i<length fc. forecast_rendering (days ! i) (js_get (fc ! i) ''waveHeight''))"
proof -
  from map_result_total [of "forecast_callback rt" 0 "take 7 days"]
  obtain fc where fc: "map_result (forecast_callback rt) 0 (take 7 days) = Inr fc"
    by (auto simp: forecast_callback_def)
  then have live: "live_forecast rt daily = Inr (JArr fc)"
    using assms by (simp add: live_forecast_def js_slice_def js_map_def)
  from map_result_length [OF fc] have len: "length fc = min 7 (length days)"
    by (simp add: min.commute)
  have "forecast_rendering (days ! i) (js_get (fc ! i) ''waveHeight'')" if "i < length fc" for i
  proof -
    from that len have i: "i < length (take 7 days)" by simp
    from map_result_nth [OF fc i]
    have "fc ! i = JObj [ (''day'', JNum (Fin (of_nat i))),
                          (''waveHeight'', JStr (to_fixed rt 2 (parseFloat (take 7 days ! i)))) ]"
      by (simp add: forecast_callback_def)
    moreover from i have "take 7 days ! i = days ! i" by simp
    ultimately show ?thesis
      by (simp add: forecast_rendering_to_fixed)
  qed
  with live len show ?thesis by blast
qed


lemma area_callback_format: "\<not> nullish x \<Longrightarrow> area_callback x j = Inr (format_area_observation x)"
  by (simp add: area_callback_def get_prop_def)

lemma getObservationsByArea_live:
  assumes net: "net (area_request rt a b c d) = Resolved adata"
    and res: "js_get adata ''results'' = JArr obs"
    and nn: "\<And>x. x \<in> set obs \<Longrightarrow> \<not> nullish x"
    and tr: "truthy adata"
  shows "getObservationsByArea rt net a b c d = Inr (JArr (map format_area_observation obs))"
proof -
  have "map_result area_callback 0 obs = Inr (map format_area_observation obs)"
    by (rule map_result_map) (simp add: area_callback_format nn)
  then have "js_map area_callback (JArr obs) = Inr (JArr (map format_area_observation obs))"
    by (simp add: js_map_def)
  then have "getObservationsByArea_try rt net a b c d = Inr (JArr (map format_area_observation obs))"
    using net res tr by (simp add: getObservationsByArea_try_def)
  then show ?thesis
    by (simp add: getObservationsByArea_def)
qed

lemma format_area_raw:
  "js_get (format_area_observation x) ''lat'' = js_get x ''decimalLatitude''"
  "js_get (format_area_observation x) ''lon'' = js_get x ''decimalLongitude''"
  by (simp_all add: format_area_observation_def)

lemma getOceanWeather_live:
  assumes "net (marine_request lat lon) = Resolved data" and "truthy data"
    and "live_ocean_weather rt lat lon data = Inr v"
  shows "getOceanWeather rt net lat lon = Inr v"
  using assms by (simp add: getOceanWeather_def getOceanWeather_try_def)

lemma live_ocean_weather_parts:
  assumes "live_ocean_weather rt lat lon data = Inr v"
  shows "js_get v ''current'' = live_current rt (js_or (js_get data ''hourly'') (JObj []))"
    and "js_get v ''daily'' = live_daily rt (js_or (js_get data ''daily'') (JObj []))"
    and "live_forecast rt (js_or (js_get data ''daily'') (JObj [])) = Inr (js_get v ''forecast'')"
proof -
  from assms obtain fc where fc: "live_forecast rt (js_or (js_get data ''daily'') (JObj [])) = Inr fc"
    by (cases "live_forecast rt (js_or (js_get data ''daily'') (JObj []))")
       (simp_all add: live_ocean_weather_def Let_def)
  with assms have v: "v = snapshot (location_of rt lat lon)
       (live_current rt (js_or (js_get data ''hourly'') (JObj [])))
       (live_daily rt (js_or (js_get data ''daily'') (JObj []))) fc (JStr ''Open-Meteo Marine API'')"
    by (simp add: live_ocean_weather_def Let_def snapshot_def)
  show "js_get v ''current'' = live_current rt (js_or (js_get data ''hourly'') (JObj []))"
    and "js_get v ''daily'' = live_daily rt (js_or (js_get data ''daily'') (JObj []))"
    and "live_forecast rt (js_or (js_get data ''daily'') (JObj [])) = Inr (js_get v ''forecast'')"
    using fc by (simp_all add: v snapshot_def)
qed

lemma wave_renderingD:
  "wave_rendering (JNum (Fin q)) f \<Longrightarrow> \<bar>q\<bar> < 10 ^ 21 \<Longrightarrow> \<exists>s. f = JStr s \<and> is_fixed_decimals 2 s"
  by (simp add: wave_rendering_def)

lemma temp_renderingD:
  "temp_rendering (JNum (Fin q)) f \<Longrightarrow> q \<noteq> 0 \<Longrightarrow> \<bar>q\<bar> < 10 ^ 21 \<Longrightarrow>
     \<exists>s. f = JStr s \<and> is_fixed_decimals 1 s"
  by (simp add: temp_rendering_def)

text \<open>A response body with an absent wave height, a wave period and a maximum temperature.\<close>

definition sample_marine_body :: jsval where
  "sample_marine_body = JObj
     [ (''hourly'', JObj [(''wave_height'', JArr [JNull]), (''wave_period'', JArr [JNum (Fin 7.456)])]),
       (''daily'', JObj [(''temperature_2m_max'', JArr [JNum (Fin 18.4)])]) ]"

lemma sample_marine_live:
  "\<exists>v. live_ocean_weather rt lat lon sample_marine_body = Inr v"
  by (simp add: live_ocean_weather_def Let_def live_forecast_def js_or_def sample_marine_body_def)

lemma sample_marine_readings:
  "upstream_hourly sample_marine_body ''wave_height'' = JNull"
  "upstream_hourly sample_marine_body ''wave_period'' = JNum (Fin 7.456)"
  "upstream_daily sample_marine_body ''temperature_2m_max'' = JNum (Fin 18.4)"
  "upstream_daily sample_marine_body ''temperature_2m_min'' = JUndefined"
  by (simp_all add: upstream_hourly_def upstream_daily_def sample_marine_body_def first_of_def js_or_def)

lemma wave_rendering_absent: "wave_rendering u f \<Longrightarrow> nullish u \<Longrightarrow> f = JStr ''0.00''"
  by (simp add: wave_rendering_def)

lemma temp_rendering_absent: "temp_rendering u f \<Longrightarrow> nullish u \<Longrightarrow> f = JStr ''N/A''"
  by (simp add: temp_rendering_def)

subsection \<open>The query parameters of the weather route\<close>

lemma num_or_default: "num_or a d = (if a = NaN \<or> a = Fin 0 then d else a)"
  by (simp add: num_or_def)

text \<open>
  The route passes on what \<^verbatim>\<open>parseFloat\<close> reads from the parameter, unless that is NaN
  (an absent parameter, or text with no numeric prefix) or zero: then it passes the
  default. It always answers with status 200.
\<close>

lemma route_ocean_weather_args_cases:
  "fst (route_ocean_weather_args query) =
     (if parseFloat (js_get (JObj query) ''lat'') = NaN \<or> parseFloat (js_get (JObj query) ''lat'') = Fin 0
      then Fin 37.5 else parseFloat (js_get (JObj query) ''lat''))"
  "snd (route_ocean_weather_args query) =
     (if parseFloat (js_get (JObj query) ''lon'') = NaN \<or> parseFloat (js_get (JObj query) ''lon'') = Fin 0
      then Fin (- 122.4) else parseFloat (js_get (JObj query) ''lon''))"
  by (simp_all add: route_ocean_weather_args_def num_or_default)

lemma route_ocean_weather_never_rejects:
  "res_status (route_ocean_weather rt net query) = 200"
proof -
  obtain lat lon where a: "route_ocean_weather_args query = (lat, lon)"
    by (cases "route_ocean_weather_args query")
  from getOceanWeather_form [of rt net lat lon] obtain v
    where "getOceanWeather rt net lat lon = Inr v" by blast
  with a show ?thesis
    by (simp add: route_ocean_weather_def)
qed

subsection \<open>The conversions on concrete inputs\<close>

lemma parseFloat_samples:
  "parseFloat (JStr ''40.7'') = Fin 40.7"
  "parseFloat (JStr '' -74.0'') = Fin (- 74)"
  "parseFloat (JStr ''12abc'') = Fin 12"
  "parseFloat (JStr ''abc'') = NaN"
  "parseFloat JUndefined = NaN"
  "parseFloat (JArr [JStr ''3.5'', JStr ''7'']) = Fin 3.5"
  by code_simp+

lemma to_number_samples:
  "to_number (JStr '' 12 '') = Fin 12"
  "to_number (JStr ''12abc'') = NaN"
  "to_number (JStr []) = Fin 0"
  "to_number (JStr ''0x1F'') = Fin 31"
  "to_number (JBool True) = Fin 1"
  "to_number (JArr [JStr ''2.5'']) = Fin 2.5"
  by code_simp+

lemma to_fixed_samples:
  "to_fixed \<lparr>num_to_string = (\<lambda>q. []), iso_now = []\<rparr> 2 (Fin 1.5) = ''1.50''"
  "to_fixed \<lparr>num_to_string = (\<lambda>q. []), iso_now = []\<rparr> 2 (Fin (- 0.001)) = ''-0.00''"
  "to_fixed \<lparr>num_to_string = (\<lambda>q. []), iso_now = []\<rparr> 2 (Fin 7.456) = ''7.46''"
  "to_fixed \<lparr>num_to_string = (\<lambda>q. []), iso_now = []\<rparr> 1 (Fin (- 122.4)) = ''-122.4''"
  "to_fixed \<lparr>num_to_string = (\<lambda>q. []), iso_now = []\<rparr> 1 (Fin 0.25) = ''0.3''"
  "to_fixed \<lparr>num_to_string = (\<lambda>q. []), iso_now = []\<rparr> 2 NaN = ''NaN''"
  by code_simp+

lemma condition_samples:
  "getWaveCondition (JNum (Fin 0.4)) = ''Calm''"
  "getWaveCondition (JNum (Fin 2.5)) = ''Light''"
  "getWaveCondition (JStr ''n/a'') = ''Phenomenal''"
  "getTemperatureCondition (JNum (Fin 13.5)) = ''Cool''"
  "getTemperatureCondition JUndefined = ''Very Warm''"
  by code_simp+

subsection \<open>Region names\<close>

lemma north_pacific_unsatisfiable:
  "\<not> (num_ge lon (Fin 120) \<and> num_le lon (Fin (- 100)))"
  by (cases lon) (auto simp: num_ge_def num_le_def)

lemma find_SomeD: "find P xs = Some x \<Longrightarrow> P x \<and> x \<in> set xs"
  by (induction xs) (auto split: if_splits)

section \<open>The claims\<close>

text \<open>
  C1, as the code has it. When the upstream call fails (the request rejects, or resolves
  with an absent or empty body), no adapter operation throws. Six of them return their
  fallback payload, which is not empty and has the operation's shape:
  \<^verbatim>\<open>getFishSpecies\<close>, \<^verbatim>\<open>getBiodiversityObservations\<close>, \<^verbatim>\<open>getSpeciesStats\<close>,
  \<^verbatim>\<open>getOceanWeather\<close>, \<^verbatim>\<open>getWaterTemperature\<close> and
  \<^verbatim>\<open>getOceanDataMultipleLocations\<close> (the three named fallback snapshots). The other two,
  \<^verbatim>\<open>getFishByFamily\<close> and \<^verbatim>\<open>getObservationsByArea\<close>, return the empty array.
\<close>

theorem adapters_on_failed_call:
  assumes "\<And>req. call_fails (net req)"
  shows "getFishSpecies net limit = Inr getDefaultFishData \<and>
         getBiodiversityObservations net options = Inr getDefaultBiodiversityData \<and>
         getSpeciesStats net = Inr getDefaultSpeciesStats \<and>
         getOceanWeather rt net lat lon = Inr (getDefaultOceanWeather rt lat lon) \<and>
         getWaterTemperature rt net lat lon = Inr (getDefaultTemperatureData rt lat lon) \<and>
         getOceanDataMultipleLocations rt net = Inr (JArr (map (fallback_entry rt) locations)) \<and>
         getFishByFamily net family = Inr (JArr []) \<and>
         getObservationsByArea rt net minLat maxLat minLon maxLon = Inr (JArr []) \<and>
         non_empty getDefaultFishData \<and> all_entries fish_record_shape getDefaultFishData \<and>
         non_empty getDefaultBiodiversityData \<and> biodiversity_shape getDefaultBiodiversityData \<and>
         non_empty getDefaultSpeciesStats \<and> stats_shape getDefaultSpeciesStats \<and>
         non_empty (getDefaultOceanWeather rt lat lon) \<and>
         weather_shape (getDefaultOceanWeather rt lat lon) \<and>
         non_empty (getDefaultTemperatureData rt lat lon) \<and>
         temperature_shape (getDefaultTemperatureData rt lat lon) \<and>
         non_empty (JArr (map (fallback_entry rt) locations)) \<and>
         all_entries named_weather_shape (JArr (map (fallback_entry rt) locations))"
proof -
  have ops: "getFishSpecies net limit = Inr getDefaultFishData"
    "getBiodiversityObservations net options = Inr getDefaultBiodiversityData"
    "getSpeciesStats net = Inr getDefaultSpeciesStats"
    "getOceanWeather rt net lat lon = Inr (getDefaultOceanWeather rt lat lon)"
    "getWaterTemperature rt net lat lon = Inr (getDefaultTemperatureData rt lat lon)"
    "getOceanDataMultipleLocations rt net = Inr (JArr (map (fallback_entry rt) locations))"
    "getFishByFamily net family = Inr (JArr [])"
    "getObservationsByArea rt net minLat maxLat minLon maxLon = Inr (JArr [])"
    using assms
    by (simp_all only: getFishSpecies_fails getBiodiversityObservations_fails getSpeciesStats_fails
        getOceanWeather_fails getWaterTemperature_fails getOceanDataMultipleLocations_fails
        getFishByFamily_fails getObservationsByArea_fails)
  show ?thesis
    by (intro conjI ops non_empty_fallbacks default_fish_shape default_biodiversity_shape
        default_stats_shape default_weather_shape default_temperature_shape multi_fallback_shape)
qed

theorem adapters_on_failed_call_witness:
  "call_fails (Rejected (AxiosError ''ECONNREFUSED'')) \<and>
   getFishSpecies (\<lambda>req. Rejected (AxiosError ''ECONNREFUSED'')) (JNum (Fin 10)) = Inr getDefaultFishData \<and>
   getFishByFamily (\<lambda>req. Rejected (AxiosError ''ECONNREFUSED'')) (JStr ''Salmonidae'') = Inr (JArr []) \<and>
   getOceanWeather \<lparr>num_to_string = (\<lambda>q. []), iso_now = []\<rparr>
      (\<lambda>req. Rejected (AxiosError ''ECONNREFUSED'')) (Fin 0) (Fin 0)
     = Inr (getDefaultOceanWeather \<lparr>num_to_string = (\<lambda>q. []), iso_now = []\<rparr> (Fin 0) (Fin 0))"
proof -
  have h: "call_fails ((\<lambda>req. Rejected (AxiosError ''ECONNREFUSED'')) req)" for req :: request
    by (simp add: call_fails_def)
  from adapters_on_failed_call [of "\<lambda>req. Rejected (AxiosError ''ECONNREFUSED'')"
      "JNum (Fin 10)" "[]" "\<lparr>num_to_string = (\<lambda>q. []), iso_now = []\<rparr>" "Fin 0" "Fin 0"
      "JStr ''Salmonidae''" JNull JNull JNull JNull, OF h] h
  show ?thesis by simp
qed

text \<open>
  The claim as stated fails for the two operations whose failure result is \<^verbatim>\<open>[]\<close>: with
  a request that times out, \<^verbatim>\<open>getFishByFamily('Salmonidae')\<close> returns no non-empty
  value, and neither does \<^verbatim>\<open>getObservationsByArea(0, 0, 0, 0)\<close> on an empty body.
\<close>

theorem failed_call_empty_result_counterexample:
  "\<not> (\<exists>v. getFishByFamily (\<lambda>req. Rejected (AxiosError ''timeout of 10000ms exceeded''))
            (JStr ''Salmonidae'') = Inr v \<and> non_empty v) \<and>
   \<not> (\<exists>v. getObservationsByArea \<lparr>num_to_string = (\<lambda>q. []), iso_now = []\<rparr>
            (\<lambda>req. Resolved (JStr [])) (JNum (Fin 0)) (JNum (Fin 0)) (JNum (Fin 0)) (JNum (Fin 0))
          = Inr v \<and> non_empty v)"
  by (simp add: getFishByFamily_def getFishByFamily_try_def getObservationsByArea_def
      getObservationsByArea_try_def)

text \<open>
  C2. For every adapter operation, every argument and every behaviour of the network, the
  returned payload has the same field names, whether it was built from a live response or
  is the fallback: a fish record has the eight fields of the default fish records, the
  biodiversity object and its observations, the statistics, the weather snapshot (with
  its \<^verbatim>\<open>location\<close>, \<^verbatim>\<open>current\<close> and \<^verbatim>\<open>daily\<close> objects and its forecast entries) and
  the temperature snapshot have the fields of their fallbacks, and every entry that
  \<^verbatim>\<open>getOceanDataMultipleLocations\<close> returns has the name and the fields of a weather
  snapshot, as the entries it returns when the calls fail do. (The array
  \<^verbatim>\<open>getDefaultMultiLocationData\<close> of its \<^verbatim>\<open>catch\<close> block, whose entries have no
  \<^verbatim>\<open>daily\<close>, \<^verbatim>\<open>forecast\<close> and \<^verbatim>\<open>source\<close>, is never what it returns: lemma
  \<open>multi_location_catch_unreachable\<close>.)
\<close>

theorem payload_shape_same_on_both_paths:
  "returns (getFishSpecies net limit) (all_entries fish_record_shape) \<and>
   all_entries fish_record_shape getDefaultFishData \<and>
   returns (getFishByFamily net family) (all_entries family_record_shape) \<and>
   returns (getBiodiversityObservations net options) biodiversity_shape \<and>
   biodiversity_shape getDefaultBiodiversityData \<and>
   returns (getSpeciesStats net) stats_shape \<and>
   stats_shape getDefaultSpeciesStats \<and>
   returns (getObservationsByArea rt net minLat maxLat minLon maxLon) (all_entries area_observation_shape) \<and>
   returns (getOceanWeather rt net lat lon) weather_shape \<and>
   weather_shape (getDefaultOceanWeather rt lat lon) \<and>
   returns (getWaterTemperature rt net lat lon) temperature_shape \<and>
   temperature_shape (getDefaultTemperatureData rt lat lon) \<and>
   returns (getOceanDataMultipleLocations rt net) (all_entries named_weather_shape) \<and>
   all_entries named_weather_shape (JArr (map (fallback_entry rt) locations))"
proof -
  from getOceanDataMultipleLocations_form [of rt net]
  have multi: "returns (getOceanDataMultipleLocations rt net) (all_entries named_weather_shape)"
    by (auto simp: returns_def all_entries_def)
  show ?thesis
    by (intro conjI getFishSpecies_shape default_fish_shape getFishByFamily_shape
        getBiodiversityObservations_shape default_biodiversity_shape getSpeciesStats_shape
        default_stats_shape getObservationsByArea_shape getOceanWeather_shape default_weather_shape
        getWaterTemperature_shape default_temperature_shape multi multi_fallback_shape)
qed

theorem payload_shape_same_on_both_paths_witness:
  "returns (getFishSpecies (\<lambda>req. Resolved (JArr [JObj [(''SpecCode'', JNum (Fin 7))]])) JUndefined)
     (all_entries fish_record_shape) \<and>
   returns (getFishSpecies (\<lambda>req. Rejected (AxiosError ''ECONNREFUSED'')) JUndefined)
     (all_entries fish_record_shape) \<and>
   returns (getOceanDataMultipleLocations \<lparr>num_to_string = (\<lambda>q. []), iso_now = []\<rparr>
              (\<lambda>req. Resolved (JObj [])))
     (all_entries named_weather_shape) \<and>
   returns (getOceanDataMultipleLocations \<lparr>num_to_string = (\<lambda>q. []), iso_now = []\<rparr>
              (\<lambda>req. Rejected (AxiosError ''ECONNREFUSED'')))
     (all_entries named_weather_shape)"
  using payload_shape_same_on_both_paths
          [of "\<lambda>req. Resolved (JArr [JObj [(''SpecCode'', JNum (Fin 7))]])" JUndefined JUndefined "[]"
              "\<lparr>num_to_string = (\<lambda>q. []), iso_now = []\<rparr>" JNull JNull JNull JNull "Fin 0" "Fin 0"]
        payload_shape_same_on_both_paths
          [of "\<lambda>req. Rejected (AxiosError ''ECONNREFUSED'')" JUndefined JUndefined "[]"
              "\<lparr>num_to_string = (\<lambda>q. []), iso_now = []\<rparr>" JNull JNull JNull JNull "Fin 0" "Fin 0"]
        payload_shape_same_on_both_paths
          [of "\<lambda>req. Resolved (JObj [])" JUndefined JUndefined "[]"
              "\<lparr>num_to_string = (\<lambda>q. []), iso_now = []\<rparr>" JNull JNull JNull JNull "Fin 0" "Fin 0"]
  by simp

text \<open>
  C3, as the code has it. On the live path of \<^verbatim>\<open>getOceanWeather\<close> (the response body is
  truthy and the \<^verbatim>\<open>try\<close> block completes), the result is the live snapshot, and in it:
  each wave value of \<^verbatim>\<open>current\<close> (\<^verbatim>\<open>waveHeight\<close>, \<^verbatim>\<open>wavePeriod\<close>,
  \<^verbatim>\<open>windWaveHeight\<close>) whose upstream value is a finite number below \<open>10^21\<close> in
  magnitude is a text with exactly two decimals, and an absent one is \<^verbatim>\<open>"0.00"\<close>; each
  temperature (\<^verbatim>\<open>maxTemp\<close>, \<^verbatim>\<open>minTemp\<close>) whose upstream value is such a number other
  than zero is a text with exactly one decimal, and an absent one is \<^verbatim>\<open>"N/A"\<close>; the
  forecast has an entry for each of the first seven upstream values, with two decimals
  for such a number. And \<^verbatim>\<open>getObservationsByArea\<close>, on its live path, passes
  \<^verbatim>\<open>decimalLatitude\<close> and \<^verbatim>\<open>decimalLongitude\<close> through as they are.
\<close>

theorem live_weather_number_formatting:
  assumes "net (marine_request lat lon) = Resolved data" and "truthy data"
    and "live_ocean_weather rt lat lon data = Inr v"
  shows "getOceanWeather rt net lat lon = Inr v \<and>
         wave_rendering (upstream_hourly data ''wave_height'') (js_get (js_get v ''current'') ''waveHeight'') \<and>
         wave_rendering (upstream_hourly data ''wave_period'') (js_get (js_get v ''current'') ''wavePeriod'') \<and>
         wave_rendering (upstream_hourly data ''wind_wave_height'')
           (js_get (js_get v ''current'') ''windWaveHeight'') \<and>
         temp_rendering (upstream_daily data ''temperature_2m_max'') (js_get (js_get v ''daily'') ''maxTemp'') \<and>
         temp_rendering (upstream_daily data ''temperature_2m_min'') (js_get (js_get v ''daily'') ''minTemp'') \<and>
         (\<forall>days. js_get (js_or (js_get data ''daily'') (JObj [])) ''wave_height_max'' = JArr days \<longrightarrow>
            (\<exists>fc. js_get v ''forecast'' = JArr fc \<and> length fc = min 7 (length days) \<and>
               (\<forall>i<length fc. forecast_rendering (days ! i) (js_get (fc ! i) ''waveHeight'')))) \<and>
         (\<forall>adata obs. net (area_request rt minLat maxLat minLon maxLon) = Resolved adata \<and> truthy adata \<and>
              js_get adata ''results'' = JArr obs \<and> (\<forall>x\<in>set obs. \<not> nullish x) \<longrightarrow>
            (\<exists>out. getObservationsByArea rt net minLat maxLat minLon maxLon = Inr (JArr out) \<and>
               length out = length obs \<and>
               (\<forall>i<length obs. js_get (out ! i) ''lat'' = js_get (obs ! i) ''decimalLatitude'' \<and>
                                js_get (out ! i) ''lon'' = js_get (obs ! i) ''decimalLongitude'')))"
proof -
  note parts = live_ocean_weather_parts [OF assms(3)]
  have forecast: "\<exists>fc. js_get v ''forecast'' = JArr fc \<and> length fc = min 7 (length days) \<and>
               (\<forall>i<length fc. forecast_rendering (days ! i) (js_get (fc ! i) ''waveHeight''))"
    if "js_get (js_or (js_get data ''daily'') (JObj [])) ''wave_height_max'' = JArr days" for days
    using live_forecast_rendering [OF that, of rt] parts(3) by auto
  have area: "\<exists>out. getObservationsByArea rt net minLat maxLat minLon maxLon = Inr (JArr out) \<and>
               length out = length obs \<and>
               (\<forall>i<length obs. js_get (out ! i) ''lat'' = js_get (obs ! i) ''decimalLatitude'' \<and>
                                js_get (out ! i) ''lon'' = js_get (obs ! i) ''decimalLongitude'')"
    if "net (area_request rt minLat maxLat minLon maxLon) = Resolved adata" "truthy adata"
      "js_get adata ''results'' = JArr obs" "\<forall>x\<in>set obs. \<not> nullish x" for adata obs
  proof -
    from that have "getObservationsByArea rt net minLat maxLat minLon maxLon
        = Inr (JArr (map format_area_observation obs))"
      by (intro getObservationsByArea_live [of net rt minLat maxLat minLon maxLon adata obs]) simp_all
    then show ?thesis
      by (intro exI [of _ "map format_area_observation obs"]) (simp add: format_area_raw)
  qed
  have ow: "getOceanWeather rt net lat lon = Inr v"
    using assms by (simp add: getOceanWeather_live)
  have w1: "wave_rendering (upstream_hourly data ''wave_height'') (js_get (js_get v ''current'') ''waveHeight'')"
    and w2: "wave_rendering (upstream_hourly data ''wave_period'') (js_get (js_get v ''current'') ''wavePeriod'')"
    and w3: "wave_rendering (upstream_hourly data ''wind_wave_height'')
           (js_get (js_get v ''current'') ''windWaveHeight'')"
    by (simp_all only: upstream_hourly_def parts(1) live_current_rendering)
  have t1: "temp_rendering (upstream_daily data ''temperature_2m_max'') (js_get (js_get v ''daily'') ''maxTemp'')"
    and t2: "temp_rendering (upstream_daily data ''temperature_2m_min'') (js_get (js_get v ''daily'') ''minTemp'')"
    by (simp_all only: upstream_daily_def parts(2) live_daily_rendering)
  have fc_all: "\<forall>days. js_get (js_or (js_get data ''daily'') (JObj [])) ''wave_height_max'' = JArr days \<longrightarrow>
            (\<exists>fc. js_get v ''forecast'' = JArr fc \<and> length fc = min 7 (length days) \<and>
               (\<forall>i<length fc. forecast_rendering (days ! i) (js_get (fc ! i) ''waveHeight'')))"
    using forecast by blast
  have area_all: "\<forall>adata obs. net (area_request rt minLat maxLat minLon maxLon) = Resolved adata \<and> truthy adata \<and>
              js_get adata ''results'' = JArr obs \<and> (\<forall>x\<in>set obs. \<not> nullish x) \<longrightarrow>
            (\<exists>out. getObservationsByArea rt net minLat maxLat minLon maxLon = Inr (JArr out) \<and>
               length out = length obs \<and>
               (\<forall>i<length obs. js_get (out ! i) ''lat'' = js_get (obs ! i) ''decimalLatitude'' \<and>
                                js_get (out ! i) ''lon'' = js_get (obs ! i) ''decimalLongitude''))"
    using area by blast
  from ow w1 w2 w3 t1 t2 fc_all area_all show ?thesis
    by (intro conjI)
qed

theorem live_weather_number_formatting_witness:
  "\<exists>v. getOceanWeather \<lparr>num_to_string = (\<lambda>q. []), iso_now = []\<rparr> (\<lambda>req. Resolved sample_marine_body)
          (Fin 37.5) (Fin (- 122.4)) = Inr v \<and>
       js_get (js_get v ''current'') ''waveHeight'' = JStr ''0.00'' \<and>
       (\<exists>s. js_get (js_get v ''current'') ''wavePeriod'' = JStr s \<and> is_fixed_decimals 2 s) \<and>
       (\<exists>s. js_get (js_get v ''daily'') ''maxTemp'' = JStr s \<and> is_fixed_decimals 1 s) \<and>
       js_get (js_get v ''daily'') ''minTemp'' = JStr ''N/A''"
proof -
  let ?rt = "\<lparr>num_to_string = (\<lambda>q. []), iso_now = []\<rparr>"
  let ?net = "\<lambda>req::request. Resolved sample_marine_body"
  from sample_marine_live [of ?rt "Fin 37.5" "Fin (- 122.4)"] obtain v
    where v: "live_ocean_weather ?rt (Fin 37.5) (Fin (- 122.4)) sample_marine_body = Inr v" by blast
  have t: "truthy sample_marine_body" by (simp add: sample_marine_body_def)
  have n: "?net (marine_request (Fin 37.5) (Fin (- 122.4))) = Resolved sample_marine_body" by simp
  note inst = live_weather_number_formatting
      [of ?net "Fin 37.5" "Fin (- 122.4)" sample_marine_body ?rt v JNull JNull JNull JNull, OF n t v,
       unfolded sample_marine_readings]
  from inst have ow: "getOceanWeather ?rt ?net (Fin 37.5) (Fin (- 122.4)) = Inr v"
    by (rule conjunct1)
  from inst have wh: "wave_rendering JNull (js_get (js_get v ''current'') ''waveHeight'')"
    by (elim conjE) assumption
  from inst have wp: "wave_rendering (JNum (Fin 7.456)) (js_get (js_get v ''current'') ''wavePeriod'')"
    by (elim conjE) assumption
  from inst have mx: "temp_rendering (JNum (Fin 18.4)) (js_get (js_get v ''daily'') ''maxTemp'')"
    by (elim conjE) assumption
  from inst have mn: "temp_rendering JUndefined (js_get (js_get v ''daily'') ''minTemp'')"
    by (elim conjE) assumption
  have b: "\<bar>7.456 :: rat\<bar> < 10 ^ 21" "(18.4 :: rat) \<noteq> 0" "\<bar>18.4 :: rat\<bar> < 10 ^ 21"
    by simp_all
  have n1: "nullish JNull" "nullish JUndefined"
    by (simp_all add: nullish_def)
  from ow wave_rendering_absent [OF wh n1(1)] wave_renderingD [OF wp b(1)]
    temp_renderingD [OF mx b(2) b(3)] temp_rendering_absent [OF mn n1(2)]
  show ?thesis
    by (intro exI [of _ v] conjI)
qed

text \<open>
  The claim as stated fails on a live response with the maximum temperature 18.4 and no
  wave height: the temperature is printed with one decimal, \<^verbatim>\<open>"18.4"\<close>, not two, and the
  absent wave height becomes \<^verbatim>\<open>"0.00"\<close>, not \<^verbatim>\<open>"N/A"\<close>.
\<close>

theorem live_weather_formatting_counterexample:
  "\<exists>v. getOceanWeather \<lparr>num_to_string = (\<lambda>q. []), iso_now = []\<rparr> (\<lambda>req. Resolved sample_marine_body)
          (Fin 37.5) (Fin (- 122.4)) = Inr v \<and>
       js_get v ''source'' = JStr ''Open-Meteo Marine API'' \<and>
       js_get (js_get v ''daily'') ''maxTemp'' = JStr ''18.4'' \<and>
       \<not> is_fixed_decimals 2 ''18.4'' \<and>
       js_get (js_get v ''current'') ''waveHeight'' = JStr ''0.00'' \<and>
       JStr ''0.00'' \<noteq> JStr ''N/A''"
proof -
  let ?rt = "\<lparr>num_to_string = (\<lambda>q. []), iso_now = []\<rparr>"
  let ?net = "\<lambda>req::request. Resolved sample_marine_body"
  let ?data = "sample_marine_body"
  from sample_marine_live [of ?rt "Fin 37.5" "Fin (- 122.4)"] obtain v
    where v: "live_ocean_weather ?rt (Fin 37.5) (Fin (- 122.4)) sample_marine_body = Inr v" by blast
  have t: "truthy sample_marine_body" by (simp add: sample_marine_body_def)
  have "getOceanWeather ?rt ?net (Fin 37.5) (Fin (- 122.4)) = Inr v"
    using v t by (simp add: getOceanWeather_live)
  moreover have "js_get v ''source'' = JStr ''Open-Meteo Marine API''"
    using v by (auto simp: live_ocean_weather_def Let_def split: sum.splits)
  moreover have "js_get (js_get v ''daily'') ''maxTemp'' = JStr ''18.4''"
    unfolding live_ocean_weather_parts(2) [OF v] by code_simp
  moreover have "\<not> is_fixed_decimals 2 ''18.4''"
    by (simp add: is_fixed_decimals_def is_digit_def digit_chars_def)
  moreover have "js_get (js_get v ''current'') ''waveHeight'' = JStr ''0.00''"
    by (simp add: live_ocean_weather_parts(1) [OF v] live_current_def Let_def sample_marine_body_def
        first_of_def js_or_def to_fixed_zero)
  ultimately show ?thesis by simp
qed

text \<open>
  C4. The claim holds that any numeric \<^verbatim>\<open>lat\<close> and \<^verbatim>\<open>lon\<close>, 0 included, reach the
  adapter unchanged. The route does otherwise for 0: \<^verbatim>\<open>parseFloat("0") || 37.5\<close> is
  \<^verbatim>\<open>37.5\<close>, since 0 is falsy, so \<^verbatim>\<open>GET /api/ocean-weather?lat=0&lon=0\<close> is answered
  (with status 200) for the default coordinates (37.5, -122.4), which the snapshot's
  location shows.
\<close>

theorem route_ocean_weather_zero_coordinates:
  "route_ocean_weather_args [(''lat'', JStr ''0''), (''lon'', JStr ''0'')] = (Fin 37.5, Fin (- 122.4)) \<and>
   res_status (route_ocean_weather rt net [(''lat'', JStr ''0''), (''lon'', JStr ''0'')]) = 200 \<and>
   js_get (js_get (js_get (res_body (route_ocean_weather rt net [(''lat'', JStr ''0''), (''lon'', JStr ''0'')]))
       ''data'') ''location'') ''latitude'' = JNum (Fin 37.5) \<and>
   js_get (js_get (js_get (res_body (route_ocean_weather rt net [(''lat'', JStr ''0''), (''lon'', JStr ''0'')]))
       ''data'') ''location'') ''longitude'' = JNum (Fin (- 122.4))"
proof -
  have args: "route_ocean_weather_args [(''lat'', JStr ''0''), (''lon'', JStr ''0'')] = (Fin 37.5, Fin (- 122.4))"
    by (simp add: route_ocean_weather_args_def num_or_def parseFloat_str_def parse_decimal_def
        trim_start.simps ws_head_def white_space_def starts_with_def take_sign_def is_digit_def
        digit_chars_def take_exponent_def digits_value_def digit_val_def scale10_def)
  from getOceanWeather_form [of rt net "Fin 37.5" "Fin (- 122.4)"] obtain cur dly fc src
    where w: "getOceanWeather rt net (Fin 37.5) (Fin (- 122.4)) =
                Inr (snapshot (location_of rt (Fin 37.5) (Fin (- 122.4))) cur dly fc src)"
    by blast
  have "route_ocean_weather rt net [(''lat'', JStr ''0''), (''lon'', JStr ''0'')] =
      \<lparr>res_status = 200,
       res_body = JObj [ (''success'', JBool True),
                         (''data'', snapshot (location_of rt (Fin 37.5) (Fin (- 122.4))) cur dly fc src),
                         (''timestamp'', JStr (iso_now rt)) ]\<rparr>"
    using args w by (simp add: route_ocean_weather_def)
  with args show ?thesis
    by (simp add: snapshot_def location_of_def)
qed

text \<open>
  C5. When every upstream call fails, \<^verbatim>\<open>GET /api/dashboard\<close> answers with status 200 and
  \<^verbatim>\<open>success: true\<close>, and the four sections are the adapters' fallback payloads:
  \<^verbatim>\<open>fishSpecies\<close> is the default fish data, \<^verbatim>\<open>biodiversity.observations\<close> the default
  observations, \<^verbatim>\<open>oceanWeather\<close> the three named fallback snapshots and \<^verbatim>\<open>stats\<close> the
  default statistics; none of them is empty or absent.
\<close>

theorem dashboard_all_upstreams_down:
  assumes "\<And>req. call_fails (net req)"
  shows "res_status (route_dashboard rt net) = 200 \<and>
         js_get (res_body (route_dashboard rt net)) ''success'' = JBool True \<and>
         js_get (js_get (res_body (route_dashboard rt net)) ''data'') ''fishSpecies'' = getDefaultFishData \<and>
         js_get (js_get (js_get (res_body (route_dashboard rt net)) ''data'') ''biodiversity'') ''observations''
           = js_get getDefaultBiodiversityData ''observations'' \<and>
         js_get (js_get (res_body (route_dashboard rt net)) ''data'') ''oceanWeather''
           = JArr (map (fallback_entry rt) locations) \<and>
         js_get (js_get (res_body (route_dashboard rt net)) ''data'') ''stats'' = getDefaultSpeciesStats \<and>
         non_empty getDefaultFishData \<and>
         non_empty (js_get getDefaultBiodiversityData ''observations'') \<and>
         non_empty (JArr (map (fallback_entry rt) locations)) \<and>
         non_empty getDefaultSpeciesStats"
proof -
  have "route_dashboard rt net =
      \<lparr>res_status = 200,
       res_body = JObj
         [ (''success'', JBool True),
           (''data'', JObj
              [ (''fishSpecies'', getDefaultFishData),
                (''biodiversity'', getDefaultBiodiversityData),
                (''oceanWeather'', JArr (map (fallback_entry rt) locations)),
                (''stats'', getDefaultSpeciesStats) ]),
           (''sources'', JArr [JStr ''FishBase API'', JStr ''OBIS API'', JStr ''Open-Meteo Marine API'']),
           (''timestamp'', JStr (iso_now rt)) ]\<rparr>"
    by (simp add: route_dashboard_def getFishSpecies_fails assms
        getBiodiversityObservations_fails [of net, OF assms]
        getOceanDataMultipleLocations_fails [of net, OF assms]
        getSpeciesStats_fails [of net, OF assms])
  then show ?thesis
    by (simp add: non_empty_fallbacks locations_not_empty)
qed

theorem dashboard_all_upstreams_down_witness:
  "call_fails (Rejected (AxiosError ''ECONNREFUSED'')) \<and>
   res_status (route_dashboard \<lparr>num_to_string = (\<lambda>q. []), iso_now = ''2024-02-01T00:00:00.000Z''\<rparr>
       (\<lambda>req. Rejected (AxiosError ''ECONNREFUSED''))) = 200 \<and>
   js_get (res_body (route_dashboard \<lparr>num_to_string = (\<lambda>q. []), iso_now = ''2024-02-01T00:00:00.000Z''\<rparr>
       (\<lambda>req. Rejected (AxiosError ''ECONNREFUSED'')))) ''success'' = JBool True"
proof -
  have h: "call_fails ((\<lambda>req. Rejected (AxiosError ''ECONNREFUSED'')) req)" for req :: request
    by (simp add: call_fails_def)
  from dashboard_all_upstreams_down [of "\<lambda>req. Rejected (AxiosError ''ECONNREFUSED'')", OF h] h
  show ?thesis by simp
qed

text \<open>
  C6. On the live path of \<^verbatim>\<open>getFishSpecies\<close> (the response body is a non-empty array,
  none of whose records is \<^verbatim>\<open>null\<close>), the result has one record per upstream
  record, in order, and the mapping fills in the defaults: an upstream record with no
  \<^verbatim>\<open>Genus\<close> field gives \<^verbatim>\<open>genus\<close> "Unknown", and one with no \<^verbatim>\<open>Marine\<close> field
  gives \<^verbatim>\<open>marine\<close> 1.
\<close>

theorem getFishSpecies_defaults_for_missing_fields:
  assumes "net (species_request [(''limit'', if limit = JUndefined then JNum (Fin 10) else limit)])
             = Resolved (JArr recs)"
    and "recs \<noteq> []"
    and "\<And>r. r \<in> set recs \<Longrightarrow> \<not> nullish r"
  shows "\<exists>out. getFishSpecies net limit = Inr (JArr out) \<and> length out = length recs \<and>
           (\<forall>i<length recs.
              (js_get (recs ! i) ''Genus'' = JUndefined \<longrightarrow> js_get (out ! i) ''genus'' = JStr ''Unknown'') \<and>
              (js_get (recs ! i) ''Marine'' = JUndefined \<longrightarrow> js_get (out ! i) ''marine'' = JNum (Fin 1)))"
proof -
  from getFishSpecies_live [of net limit recs, OF assms]
  have "getFishSpecies net limit = Inr (JArr (map format_fish recs))" .
  moreover have "\<forall>i<length recs.
      (js_get (recs ! i) ''Genus'' = JUndefined \<longrightarrow> js_get (map format_fish recs ! i) ''genus'' = JStr ''Unknown'') \<and>
      (js_get (recs ! i) ''Marine'' = JUndefined \<longrightarrow> js_get (map format_fish recs ! i) ''marine'' = JNum (Fin 1))"
    by (simp add: format_fish_missing)
  ultimately show ?thesis
    by (intro exI [of _ "map format_fish recs"]) simp
qed

theorem getFishSpecies_defaults_for_missing_fields_witness:
  "\<exists>out. getFishSpecies (\<lambda>req. Resolved (JArr [JObj [(''SpecCode'', JNum (Fin 7)), (''Species'', JStr ''salar'')]]))
            (JNum (Fin 5)) = Inr (JArr out) \<and>
         length out = 1 \<and>
         js_get (out ! 0) ''genus'' = JStr ''Unknown'' \<and>
         js_get (out ! 0) ''marine'' = JNum (Fin 1)"
  using getFishSpecies_defaults_for_missing_fields
          [of "\<lambda>req. Resolved (JArr [JObj [(''SpecCode'', JNum (Fin 7)), (''Species'', JStr ''salar'')]])"
              "JNum (Fin 5)" "[JObj [(''SpecCode'', JNum (Fin 7)), (''Species'', JStr ''salar'')]]"]
  by (simp add: nullish_def)

text \<open>
  C7. For every pair of coordinates, every runtime and every behaviour of the network,
  \<^verbatim>\<open>getOceanWeather\<close> returns (it does not throw) a snapshot whose \<^verbatim>\<open>location.latitude\<close>
  and \<^verbatim>\<open>location.longitude\<close> are the requested coordinates, unchanged: on the live
  path and on the fallback path alike.
\<close>

theorem getOceanWeather_echoes_coordinates:
  "\<exists>v. getOceanWeather rt net lat lon = Inr v \<and>
       js_get (js_get v ''location'') ''latitude'' = JNum lat \<and>
       js_get (js_get v ''location'') ''longitude'' = JNum lon"
proof -
  from getOceanWeather_form [of rt net lat lon] obtain cur dly fc src
    where "getOceanWeather rt net lat lon = Inr (snapshot (location_of rt lat lon) cur dly fc src)"
    by blast
  moreover have "js_get (snapshot (location_of rt lat lon) cur dly fc src) ''location'' = location_of rt lat lon"
    by (simp add: snapshot_def)
  moreover have "js_get (location_of rt lat lon) ''latitude'' = JNum lat"
    "js_get (location_of rt lat lon) ''longitude'' = JNum lon"
    by (simp_all add: location_of_def)
  ultimately show ?thesis by simp
qed

text \<open>
  The instance of the specification, the coordinates (40.7, -74.0): with the network
  down, and with a live response.
\<close>

theorem getOceanWeather_echoes_coordinates_witness:
  "(\<exists>v. getOceanWeather \<lparr>num_to_string = (\<lambda>q. []), iso_now = []\<rparr>
          (\<lambda>req. Rejected (AxiosError ''ECONNREFUSED'')) (Fin 40.7) (Fin (- 74.0)) = Inr v \<and>
       js_get (js_get v ''location'') ''latitude'' = JNum (Fin 40.7) \<and>
       js_get (js_get v ''location'') ''longitude'' = JNum (Fin (- 74.0))) \<and>
   (\<exists>v. getOceanWeather \<lparr>num_to_string = (\<lambda>q. []), iso_now = []\<rparr>
          (\<lambda>req. Resolved sample_marine_body) (Fin 40.7) (Fin (- 74.0)) = Inr v \<and>
       js_get (js_get v ''location'') ''latitude'' = JNum (Fin 40.7) \<and>
       js_get (js_get v ''location'') ''longitude'' = JNum (Fin (- 74.0)))"
  by (intro conjI getOceanWeather_echoes_coordinates)

text \<open>
  C8. \<^verbatim>\<open>getOceanDataMultipleLocations\<close> always returns an array of exactly 3 entries, each
  with a \<^verbatim>\<open>name\<close> field and a \<^verbatim>\<open>current.waveHeight\<close> field, whatever the network does;
  and the fallback array of its \<^verbatim>\<open>catch\<close> block, \<^verbatim>\<open>getDefaultMultiLocationData\<close>, has
  exactly 3 such entries as well.
\<close>

theorem getOceanDataMultipleLocations_three_entries:
  "(\<exists>es. getOceanDataMultipleLocations rt net = Inr (JArr es) \<and> length es = 3 \<and>
          list_all multi_entry_ok es) \<and>
   (\<exists>es. getDefaultMultiLocationData = JArr es \<and> length es = 3 \<and> list_all multi_entry_ok es)"
proof
  from getOceanDataMultipleLocations_form [of rt net] obtain es
    where "getOceanDataMultipleLocations rt net = Inr (JArr es)" "length es = 3"
      "list_all named_weather_shape es" by blast
  moreover from this have "list_all multi_entry_ok es"
    using list_all_mono [of named_weather_shape es multi_entry_ok] named_weather_entry_ok by blast
  ultimately show "\<exists>es. getOceanDataMultipleLocations rt net = Inr (JArr es) \<and> length es = 3 \<and>
          list_all multi_entry_ok es" by blast
next
  show "\<exists>es. getDefaultMultiLocationData = JArr es \<and> length es = 3 \<and> list_all multi_entry_ok es"
    by (simp add: getDefaultMultiLocationData_def multi_entry_def multi_entry_ok_def)
qed

theorem getOceanDataMultipleLocations_three_entries_witness:
  "(\<exists>es. getOceanDataMultipleLocations \<lparr>num_to_string = (\<lambda>q. []), iso_now = []\<rparr>
            (\<lambda>req. Rejected (AxiosError ''ECONNREFUSED'')) = Inr (JArr es) \<and> length es = 3 \<and>
          list_all multi_entry_ok es) \<and>
   (\<exists>es. getDefaultMultiLocationData = JArr es \<and> length es = 3 \<and> list_all multi_entry_ok es)"
  by (rule getOceanDataMultipleLocations_three_entries)

text \<open>
  C9. On the live path of \<^verbatim>\<open>getFishSpecies\<close>, an upstream record whose \<^verbatim>\<open>Marine\<close>
  field is the number 0 is mapped to a record with \<^verbatim>\<open>marine\<close> 1: the default of
  \<^verbatim>\<open>fish.Marine || 1\<close> replaces an explicit 0 as it replaces a missing field. An
  explicit 0 in \<^verbatim>\<open>Freshwater\<close> or \<^verbatim>\<open>Brackish\<close> stays 0.
\<close>

theorem getFishSpecies_explicit_zero_flags:
  assumes "net (species_request [(''limit'', if limit = JUndefined then JNum (Fin 10) else limit)])
             = Resolved (JArr recs)"
    and "recs \<noteq> []"
    and "\<And>r. r \<in> set recs \<Longrightarrow> \<not> nullish r"
  shows "\<exists>out. getFishSpecies net limit = Inr (JArr out) \<and> length out = length recs \<and>
           (\<forall>i<length recs.
              (js_get (recs ! i) ''Marine'' = JNum (Fin 0) \<longrightarrow> js_get (out ! i) ''marine'' = JNum (Fin 1)) \<and>
              (js_get (recs ! i) ''Freshwater'' = JNum (Fin 0) \<longrightarrow>
                 js_get (out ! i) ''freshwater'' = JNum (Fin 0)) \<and>
              (js_get (recs ! i) ''Brackish'' = JNum (Fin 0) \<longrightarrow>
                 js_get (out ! i) ''brackish'' = JNum (Fin 0)))"
proof -
  from getFishSpecies_live [of net limit recs, OF assms]
  have "getFishSpecies net limit = Inr (JArr (map format_fish recs))" .
  moreover have "\<forall>i<length recs.
      (js_get (recs ! i) ''Marine'' = JNum (Fin 0) \<longrightarrow> js_get (map format_fish recs ! i) ''marine'' = JNum (Fin 1)) \<and>
      (js_get (recs ! i) ''Freshwater'' = JNum (Fin 0) \<longrightarrow>
         js_get (map format_fish recs ! i) ''freshwater'' = JNum (Fin 0)) \<and>
      (js_get (recs ! i) ''Brackish'' = JNum (Fin 0) \<longrightarrow>
         js_get (map format_fish recs ! i) ''brackish'' = JNum (Fin 0))"
    by (simp add: format_fish_zero)
  ultimately show ?thesis
    by (intro exI [of _ "map format_fish recs"]) simp
qed

theorem getFishSpecies_explicit_zero_flags_witness:
  "\<exists>out. getFishSpecies
           (\<lambda>req. Resolved (JArr [JObj [(''SpecCode'', JNum (Fin 7)), (''Marine'', JNum (Fin 0)),
                                         (''Freshwater'', JNum (Fin 0)), (''Brackish'', JNum (Fin 0))]]))
           (JNum (Fin 5)) = Inr (JArr out) \<and>
         length out = 1 \<and>
         js_get (out ! 0) ''marine'' = JNum (Fin 1) \<and>
         js_get (out ! 0) ''freshwater'' = JNum (Fin 0) \<and>
         js_get (out ! 0) ''brackish'' = JNum (Fin 0)"
  using getFishSpecies_explicit_zero_flags
          [of "\<lambda>req. Resolved (JArr [JObj [(''SpecCode'', JNum (Fin 7)), (''Marine'', JNum (Fin 0)),
                                         (''Freshwater'', JNum (Fin 0)), (''Brackish'', JNum (Fin 0))]])"
              "JNum (Fin 5)"
              "[JObj [(''SpecCode'', JNum (Fin 7)), (''Marine'', JNum (Fin 0)),
                      (''Freshwater'', JNum (Fin 0)), (''Brackish'', JNum (Fin 0))]]"]
  by (simp add: nullish_def)

text \<open>
  C10. For every pair of coordinates, \<^verbatim>\<open>getLocationName\<close> never returns "North Pacific":
  the bounds of that region ask for a longitude that is at least 120 and at most -100, so
  its test never succeeds. The result is the name of one of the other four regions, or
  the formatted coordinate string (which ends with the mark of the source text and so
  differs from "North Pacific" as well).
\<close>

theorem getLocationName_never_North_Pacific:
  "getLocationName rt lat lon \<noteq> ''North Pacific'' \<and>
   (getLocationName rt lat lon \<in> {''South Pacific'', ''Atlantic Ocean'', ''Indian Ocean'', ''Arctic Ocean''} \<or>
    getLocationName rt lat lon = to_fixed rt 1 lat @ degree_mark @ '', '' @ to_fixed rt 1 lon @ degree_mark)"
proof (cases "find (in_region lat lon) regions")
  case None
  have fmt: "xs @ degree_mark \<noteq> ''North Pacific''" for xs
  proof
    assume "xs @ degree_mark = ''North Pacific''"
    then have "last (xs @ degree_mark) = last ''North Pacific''" by simp
    then show False by (simp add: degree_mark_def)
  qed
  from None fmt [of "to_fixed rt 1 lat @ degree_mark @ '', '' @ to_fixed rt 1 lon"] show ?thesis
    by (simp add: getLocationName_def)
next
  case (Some r)
  from find_SomeD [OF Some] have r: "in_region lat lon r" "r \<in> set regions"
    by simp_all
  from r(1) north_pacific_unsatisfiable [of lon]
  have "\<not> (region_minLon r = 120 \<and> region_maxLon r = - 100)"
    by (auto simp: in_region_def)
  with r(2) have "region_name r \<in> {''South Pacific'', ''Atlantic Ocean'', ''Indian Ocean'', ''Arctic Ocean''}"
    by (auto simp: regions_def)
  with Some show ?thesis
    by (auto simp: getLocationName_def)
qed

text \<open>A point inside the box meant for the North Pacific: 45 north, 150 east.\<close>

theorem getLocationName_never_North_Pacific_witness:
  "getLocationName \<lparr>num_to_string = (\<lambda>q. []), iso_now = []\<rparr> (Fin 45) (Fin 150) \<noteq> ''North Pacific'' \<and>
   getLocationName \<lparr>num_to_string = (\<lambda>q. []), iso_now = []\<rparr> (Fin 45) (Fin 150)
     = ''45.0'' @ degree_mark @ '', 150.0'' @ degree_mark"
proof -
  have "getLocationName \<lparr>num_to_string = (\<lambda>q. []), iso_now = []\<rparr> (Fin 45) (Fin 150)
     = ''45.0'' @ degree_mark @ '', 150.0'' @ degree_mark"
    by code_simp
  with getLocationName_never_North_Pacific
         [of "\<lparr>num_to_string = (\<lambda>q. []), iso_now = []\<rparr>" "Fin 45" "Fin 150"]
  show ?thesis by simp
qed

end
